theory Spec2Isabelle
  imports Complex_Main
begin

section \<open>Strings and numbers of the host language\<close>

text \<open>
  A string of the program is a \<open>string\<close>: a list of characters, each read as one code
  unit in the range U+0000 to U+00FF. The character classes below are the ones the
  program's regular expressions name: \<open>\d\<close>, \<open>\w\<close> and \<open>\s\<close>. Within this range
  \<open>\s\<close> (and \<open>trim\<close>) cover tab, line feed, vertical tab, form feed, carriage return,
  space and the no-break space U+00A0.
\<close>

definition isDigit :: "char \<Rightarrow> bool" where
  "isDigit c \<longleftrightarrow> (48::nat) \<le> of_char c \<and> (of_char c :: nat) \<le> 57"

definition isWordChar :: "char \<Rightarrow> bool" where
  "isWordChar c \<longleftrightarrow>
     ((97::nat) \<le> of_char c \<and> (of_char c :: nat) \<le> 122) \<or>
     ((65::nat) \<le> of_char c \<and> (of_char c :: nat) \<le> 90) \<or>
     isDigit c \<or> (of_char c :: nat) = 95"

definition isSpace :: "char \<Rightarrow> bool" where
  "isSpace c \<longleftrightarrow> (of_char c :: nat) \<in> {9, 10, 11, 12, 13, 32, 160}"

definition isLineTerminator :: "char \<Rightarrow> bool" where
  "isLineTerminator c \<longleftrightarrow> (of_char c :: nat) \<in> {10, 13}"

text \<open>
  \<open>toLowerCase\<close>: the ASCII capitals and the Latin-1 capitals U+00C0 to U+00DE (the
  multiplication sign U+00D7 apart) move up by 32; every other code unit stays.
\<close>

definition toLowerChar :: "char \<Rightarrow> char" where
  "toLowerChar c =
     (if ((65::nat) \<le> of_char c \<and> (of_char c :: nat) \<le> 90) \<or>
         ((192::nat) \<le> of_char c \<and> (of_char c :: nat) \<le> 222 \<and> (of_char c :: nat) \<noteq> 215)
      then char_of ((of_char c :: nat) + 32) else c)"

definition toLowerCase :: "string \<Rightarrow> string" where
  "toLowerCase s = map toLowerChar s"

text \<open>\<open>s.startsWith(p)\<close> and \<open>s.includes(p)\<close>.\<close>

fun startsWith :: "string \<Rightarrow> string \<Rightarrow> bool" where
  "startsWith s [] = True"
| "startsWith [] (p # ps) = False"
| "startsWith (c # cs) (p # ps) = (c = p \<and> startsWith cs ps)"

fun str_includes :: "string \<Rightarrow> string \<Rightarrow> bool" where
  "str_includes [] p = (p = [])"
| "str_includes (c # cs) p = (startsWith (c # cs) p \<or> str_includes cs p)"

text \<open>\<open>s.trim()\<close>.\<close>

definition str_trim :: "string \<Rightarrow> string" where
  "str_trim s = rev (dropWhile isSpace (rev (dropWhile isSpace s)))"

text \<open>
  \<open>s.split(sep)\<close> for a separator of one character: the pieces between the
  separators, the empty ones included; the empty string gives one empty piece.
\<close>

fun str_split :: "char \<Rightarrow> string \<Rightarrow> string list" where
  "str_split sep [] = [ [] ]"
| "str_split sep (c # cs) =
     (if c = sep then [] # str_split sep cs
      else (case str_split sep cs of
              [] \<Rightarrow> [ [c] ]
            | w # ws \<Rightarrow> (c # w) # ws))"

text \<open>
  \<open>s.split(/[class]+/)\<close>: the pieces between the maximal runs of characters of the
  class. The flag says that the previous character was of the class, so that a run is
  one separator. A string that starts or ends with a run has an empty first or last piece.
\<close>

fun splitRuns :: "(char \<Rightarrow> bool) \<Rightarrow> bool \<Rightarrow> string \<Rightarrow> string list" where
  "splitRuns P inRun [] = [ [] ]"
| "splitRuns P inRun (c # cs) =
     (if P c then (if inRun then splitRuns P True cs else [] # splitRuns P True cs)
      else (case splitRuns P False cs of
              [] \<Rightarrow> [ [c] ]
            | w # ws \<Rightarrow> (c # w) # ws))"

definition splitWhitespace :: "string \<Rightarrow> string list" where
  "splitWhitespace s = splitRuns isSpace False s"

text \<open>\<open>xs.join(sep)\<close>.\<close>

fun str_join :: "string \<Rightarrow> string list \<Rightarrow> string" where
  "str_join sep [] = []"
| "str_join sep [x] = x"
| "str_join sep (x # y # ys) = x @ sep @ str_join sep (y # ys)"

text \<open>
  \<open>s.replace(/\s+/g, ' ')\<close>: every maximal run of white space becomes one space. The
  flag says that the previous character was white space.
\<close>

fun collapseRuns :: "bool \<Rightarrow> string \<Rightarrow> string" where
  "collapseRuns inRun [] = []"
| "collapseRuns inRun (c # cs) =
     (if isSpace c then (if inRun then collapseRuns True cs else CHR '' '' # collapseRuns True cs)
      else c # collapseRuns False cs)"

definition collapseWhitespace :: "string \<Rightarrow> string" where
  "collapseWhitespace s = collapseRuns False s"

text \<open>\<open>[...new Set(xs)]\<close>: the elements in the order of their first occurrence.\<close>

definition dedup :: "'a list \<Rightarrow> 'a list" where
  "dedup xs = fold (\<lambda>x acc. if x \<in> set acc then acc else acc @ [x]) xs []"

text \<open>
  A number of the program is a rational or \<open>NaN\<close>. The finite values the program
  computes are integers, quotients of two of them and multiples of 0.8, 0.40, 0.25, 0.15
  and 0.10; they are kept exact, where the program has the nearest binary floating-point
  number. The two differ by the rounding errors of the floating-point operations, which
  \<open>Math.round\<close> can see only when the exact value is halfway between two integers or
  nearly so. \<open>NaN\<close> is contagious in arithmetic and makes every comparison false.
\<close>

datatype jsnum = Num rat | NaN

fun jsAdd :: "jsnum \<Rightarrow> jsnum \<Rightarrow> jsnum" where
  "jsAdd (Num a) (Num b) = Num (a + b)"
| "jsAdd _ _ = NaN"

fun jsMul :: "jsnum \<Rightarrow> jsnum \<Rightarrow> jsnum" where
  "jsMul (Num a) (Num b) = Num (a * b)"
| "jsMul _ _ = NaN"

text \<open>Division: every call divides by a number already tested to be non-zero, or by \<open>NaN\<close>.\<close>

fun jsDiv :: "jsnum \<Rightarrow> jsnum \<Rightarrow> jsnum" where
  "jsDiv (Num a) (Num b) = Num (a / b)"
| "jsDiv _ _ = NaN"

fun jsMin :: "jsnum \<Rightarrow> jsnum \<Rightarrow> jsnum" where
  "jsMin (Num a) (Num b) = Num (min a b)"
| "jsMin _ _ = NaN"

fun jsMax :: "jsnum \<Rightarrow> jsnum \<Rightarrow> jsnum" where
  "jsMax (Num a) (Num b) = Num (max a b)"
| "jsMax _ _ = NaN"

text \<open>\<open>Math.round\<close>: the nearest integer, a tie going up.\<close>

fun jsRound :: "jsnum \<Rightarrow> jsnum" where
  "jsRound (Num a) = Num (of_int \<lfloor>a + 1 / 2\<rfloor>)"
| "jsRound NaN = NaN"

fun jsLess :: "jsnum \<Rightarrow> jsnum \<Rightarrow> bool" where
  "jsLess (Num a) (Num b) = (a < b)"
| "jsLess _ _ = False"

fun jsGreaterEq :: "jsnum \<Rightarrow> jsnum \<Rightarrow> bool" where
  "jsGreaterEq (Num a) (Num b) = (a \<ge> b)"
| "jsGreaterEq _ _ = False"

fun jsStrictEq :: "jsnum \<Rightarrow> jsnum \<Rightarrow> bool" where
  "jsStrictEq (Num a) (Num b) = (a = b)"
| "jsStrictEq _ _ = False"

definition ofNat :: "nat \<Rightarrow> jsnum" where
  "ofNat n = Num (of_nat n)"

definition ofInt :: "int \<Rightarrow> jsnum" where
  "ofInt n = Num (of_int n)"

subsection \<open>Regular expressions built from a string\<close>

text \<open>
  \<open>new RegExp(pattern, 'g')\<close> raises a syntax error for a malformed pattern, and
  \<open>text.match\<close> of the result gives the matches from left to right, none overlapping.
  A pattern made of ordinary characters and dots is matched here: a dot stands for any
  character but a line terminator, the empty pattern matches once at every position.
  For a pattern with another syntax character the result is the host engine's, the
  parameter \<open>engine\<close>: \<open>None\<close> when the constructor raises, the number of matches otherwise.
\<close>

datatype error = SyntaxError

type_synonym regexEngine = "string \<Rightarrow> string \<Rightarrow> nat option"

definition otherSyntaxChars :: "char list" where
  "otherSyntaxChars =
     [CHR ''^'', CHR ''$'', CHR 0x5C, CHR ''*'', CHR ''+'', CHR ''?'', CHR ''('', CHR '')'',
      CHR ''['', CHR '']'', CHR ''{'', CHR ''}'', CHR ''|'']"

fun simpleMatchAt :: "string \<Rightarrow> string \<Rightarrow> bool" where
  "simpleMatchAt [] t = True"
| "simpleMatchAt (p # ps) [] = False"
| "simpleMatchAt (p # ps) (c # cs) =
     ((if p = CHR ''.'' then \<not> isLineTerminator c else p = c) \<and> simpleMatchAt ps cs)"

text \<open>
  The matches of a non-empty simple pattern, counted from the left; \<open>skip\<close> is how many
  characters of the last match are still to be passed.
\<close>

fun countFrom :: "nat \<Rightarrow> string \<Rightarrow> string \<Rightarrow> nat" where
  "countFrom skip pat [] = 0"
| "countFrom skip pat (c # cs) =
     (if 0 < skip then countFrom (skip - 1) pat cs
      else if simpleMatchAt pat (c # cs) then 1 + countFrom (length pat - 1) pat cs
      else countFrom 0 pat cs)"

definition matchCount :: "regexEngine \<Rightarrow> string \<Rightarrow> string \<Rightarrow> error + nat" where
  "matchCount engine pat text =
     (if list_ex (\<lambda>c. c \<in> set otherSyntaxChars) pat
      then (case engine pat text of None \<Rightarrow> Inl SyntaxError | Some n \<Rightarrow> Inr n)
      else if pat = [] then Inr (length text + 1)
      else Inr (countFrom 0 pat text))"


section \<open>Keyword analysis\<close>

subsection \<open>The weight tables\<close>

datatype category = Technical | Soft | Industry | Action | Certification

definition KEYWORD_WEIGHTS :: "category \<Rightarrow> (string \<times> rat) list" where
  "KEYWORD_WEIGHTS cat =
     (case cat of
        Technical \<Rightarrow>
          [(''javascript'', 10), (''python'', 10), (''react'', 9), (''node.js'', 9), (''aws'', 9),
           (''sql'', 8), (''docker'', 8), (''kubernetes'', 8), (''git'', 7), (''mongodb'', 7),
           (''typescript'', 8), (''next.js'', 8), (''postgresql'', 7), (''redis'', 6),
           (''graphql'', 7), (''rest api'', 8), (''microservices'', 8), (''devops'', 8),
           (''ci/cd'', 7), (''jenkins'', 6), (''terraform'', 7), (''linux'', 6)]
      | Soft \<Rightarrow>
          [(''leadership'', 8), (''communication'', 7), (''teamwork'', 6), (''problem solving'', 8),
           (''analytical'', 7), (''creative'', 6), (''detail oriented'', 6), (''organized'', 5),
           (''collaborative'', 6), (''adaptable'', 6), (''innovative'', 7), (''strategic'', 7)]
      | Action \<Rightarrow>
          [(''developed'', 8), (''implemented'', 8), (''managed'', 7), (''led'', 8), (''created'', 7),
           (''designed'', 7), (''optimized'', 8), (''improved'', 7), (''built'', 6), (''delivered'', 6),
           (''achieved'', 7), (''increased'', 8), (''reduced'', 8), (''streamlined'', 7)]
      | Industry \<Rightarrow>
          [(''agile'', 7), (''scrum'', 6), (''kanban'', 5), (''jira'', 5), (''confluence'', 4),
           (''startup'', 6), (''enterprise'', 6), (''b2b'', 5), (''b2c'', 5), (''saas'', 7),
           (''fintech'', 6), (''healthcare'', 6), (''e-commerce'', 6), (''mobile'', 6)]
      | Certification \<Rightarrow>
          [(''aws certified'', 9), (''google cloud'', 8), (''azure'', 7), (''pmp'', 6),
           (''scrum master'', 6), (''certified'', 5), (''professional'', 4)])"

text \<open>
  The tables are object literals, and \<open>table[key]\<close> reads a property: an own key gives its
  weight, and a key the table does not have is looked up in \<open>Object.prototype\<close>, where
  \<open>constructor\<close>, \<open>__proto__\<close> and the other built-in names give a function or an object.
\<close>

datatype jsval = VNum rat | VObject | VUndefined

definition objectPrototypeKeys :: "string list" where
  "objectPrototypeKeys =
     [''constructor'', ''__proto__'', ''hasOwnProperty'', ''isPrototypeOf'',
      ''propertyIsEnumerable'', ''toLocaleString'', ''toString'', ''valueOf'',
      ''__defineGetter__'', ''__defineSetter__'', ''__lookupGetter__'', ''__lookupSetter__'']"

definition getProp :: "(string \<times> rat) list \<Rightarrow> string \<Rightarrow> jsval" where
  "getProp obj k =
     (case map_of obj k of
        Some w \<Rightarrow> VNum w
      | None \<Rightarrow> if k \<in> set objectPrototypeKeys then VObject else VUndefined)"

definition STOP_WORDS :: "string list" where
  "STOP_WORDS =
     [''the'', ''a'', ''an'', ''and'', ''or'', ''but'', ''in'', ''on'', ''at'', ''to'', ''for'', ''of'', ''with'',
      ''by'', ''from'', ''up'', ''about'', ''into'', ''through'', ''during'', ''before'', ''after'',
      ''above'', ''below'', ''between'', ''among'', ''is'', ''are'', ''was'', ''were'', ''be'', ''been'',
      ''being'', ''have'', ''has'', ''had'', ''do'', ''does'', ''did'', ''will'', ''would'', ''could'',
      ''should'', ''may'', ''might'', ''must'', ''can'', ''this'', ''that'', ''these'', ''those'',
      ''i'', ''you'', ''he'', ''she'', ''it'', ''we'', ''they'', ''me'', ''him'', ''her'', ''us'', ''them'',
      ''my'', ''your'', ''his'', ''her'', ''its'', ''our'', ''their'', ''all'', ''any'', ''both'',
      ''each'', ''few'', ''more'', ''most'', ''other'', ''some'', ''such'', ''no'', ''nor'', ''not'',
      ''only'', ''own'', ''same'', ''so'', ''than'', ''too'', ''very'', ''one'', ''also'', ''just'',
      ''now'', ''here'', ''there'', ''when'', ''where'', ''why'', ''how'']"

subsection \<open>extractKeywords\<close>

definition technicalPhrases :: "string list" where
  "technicalPhrases =
     [''machine learning'', ''artificial intelligence'', ''data science'',
      ''full stack'', ''front end'', ''back end'', ''dev ops'', ''cloud computing'',
      ''rest api'', ''graphql api'', ''micro services'', ''distributed systems'',
      ''ci cd'', ''test driven development'', ''agile development'',
      ''version control'', ''code review'', ''pair programming'']"

definition businessPhrases :: "string list" where
  "businessPhrases =
     [''project management'', ''product management'', ''business analysis'',
      ''stakeholder management'', ''cross functional'', ''team leadership'',
      ''process improvement'', ''cost reduction'', ''revenue growth'',
      ''customer satisfaction'', ''user experience'', ''market research'']"

definition extractPhrases :: "string \<Rightarrow> string list" where
  "extractPhrases text = filter (\<lambda>phrase. str_includes text phrase) (technicalPhrases @ businessPhrases)"

text \<open>The class \<open>[\w\s.-]\<close>; \<open>replace(/[^\w\s.-]/g, ' ')\<close> puts a space for every other character.\<close>

definition keywordChar :: "char \<Rightarrow> bool" where
  "keywordChar c \<longleftrightarrow> isWordChar c \<or> isSpace c \<or> c = CHR ''.'' \<or> c = CHR ''-''"

definition cleanText :: "string \<Rightarrow> string" where
  "cleanText text =
     str_trim (collapseWhitespace
       (map (\<lambda>c. if keywordChar c then c else CHR '' '') (toLowerCase text)))"

definition extractKeywords :: "string \<Rightarrow> string list" where
  "extractKeywords text =
     (if text = [] \<or> str_trim text = [] then []
      else let clean = cleanText text;
               phrases = extractPhrases clean;
               words = filter (\<lambda>word. word \<notin> set STOP_WORDS)
                         (filter (\<lambda>word. 2 < length word) (str_split CHR '' '' clean))
           in dedup (phrases @ words))"

subsection \<open>analyzeKeywordImportance\<close>

record KeywordImportance =
  keyword :: string
  importance :: jsnum
  category :: category
  contexts :: "string list"

definition categorizeKeyword :: "string \<Rightarrow> category" where
  "categorizeKeyword kw =
     (let lowerKeyword = toLowerCase kw in
      if list_ex (\<lambda>tech. str_includes lowerKeyword tech) (map fst (KEYWORD_WEIGHTS Technical))
        then Technical
      else if list_ex (\<lambda>action. str_includes lowerKeyword action) (map fst (KEYWORD_WEIGHTS Action))
        then Action
      else if list_ex (\<lambda>cert. str_includes lowerKeyword cert) (map fst (KEYWORD_WEIGHTS Certification))
        then Certification
      else if list_ex (\<lambda>ind. str_includes lowerKeyword ind) (map fst (KEYWORD_WEIGHTS Industry))
        then Industry
      else Soft)"

text \<open>
  The partial matching of a compound keyword: the largest of the default 5 and 0.8 times
  the weight of every table entry that contains the keyword or is contained in it.
\<close>

definition partialMatchScore :: "(string \<times> rat) list \<Rightarrow> string \<Rightarrow> rat" where
  "partialMatchScore categoryWeights kw =
     fold (\<lambda>(weightKeyword, weight) baseScore.
             if str_includes kw weightKeyword \<or> str_includes weightKeyword kw
             then max baseScore (weight * (8 / 10)) else baseScore)
          categoryWeights 5"

text \<open>
  \<open>baseScore\<close> starts as the exact-match weight when \<open>table[keyword]\<close> is truthy. A function
  or an object read from the prototype is truthy too; neither it nor the string that
  \<open>+=\<close> makes of it is a number, and \<open>Math.min\<close> turns it into \<open>NaN\<close> at the end, so it is
  \<open>NaN\<close> here from the start. The frequency is the number of matches of the keyword, read
  as a regular expression, in the context.
\<close>

definition calculateKeywordImportance ::
    "regexEngine \<Rightarrow> string \<Rightarrow> category \<Rightarrow> string \<Rightarrow> error + jsnum" where
  "calculateKeywordImportance engine kw cat context =
     (let categoryWeights = KEYWORD_WEIGHTS cat;
          exactMatch = getProp categoryWeights (toLowerCase kw);
          baseScore1 =
            (case exactMatch of
               VNum w \<Rightarrow> if w \<noteq> 0 then Num w
                         else Num (partialMatchScore categoryWeights (toLowerCase kw))
             | VObject \<Rightarrow> NaN
             | VUndefined \<Rightarrow> Num (partialMatchScore categoryWeights (toLowerCase kw)));
          contextLower = toLowerCase context;
          baseScore2 =
            (if str_includes contextLower ''required'' \<or> str_includes contextLower ''must'' \<or>
                str_includes contextLower ''essential''
             then jsAdd baseScore1 (Num 3) else baseScore1);
          baseScore3 =
            (if str_includes contextLower ''years'' \<and> str_includes contextLower (toLowerCase kw)
             then jsAdd baseScore2 (Num 2) else baseScore2)
      in case matchCount engine (toLowerCase kw) contextLower of
           Inl e \<Rightarrow> Inl e
         | Inr frequency \<Rightarrow>
             Inr (jsMin (if 2 < frequency
                         then jsAdd baseScore3 (ofNat (min (frequency - 1) 3))
                         else baseScore3)
                        (Num 15)))"

definition extractKeywordContext :: "string \<Rightarrow> string \<Rightarrow> string list" where
  "extractKeywordContext kw text =
     take 3 (map str_trim
       (filter (\<lambda>sentence. str_includes (toLowerCase sentence) (toLowerCase kw))
          (splitRuns (\<lambda>c. c = CHR ''.'' \<or> c = CHR ''!'' \<or> c = CHR ''?'') False text)))"

text \<open>
  \<open>sort((a, b) => b.importance - a.importance)\<close>: a stable sort, the larger importance
  first. An entry goes behind the entries that are strictly more important than it; a
  difference that is \<open>NaN\<close> counts as no difference. With a \<open>NaN\<close> among the
  importances the comparison is no order, and the place of the entries then depends on
  the sorting method of the host; the method here is insertion from the right.
\<close>

fun insertByImportance :: "KeywordImportance \<Rightarrow> KeywordImportance list \<Rightarrow> KeywordImportance list" where
  "insertByImportance a [] = [a]"
| "insertByImportance a (b # bs) =
     (if jsLess (importance a) (importance b) then b # insertByImportance a bs else a # b # bs)"

definition sortByImportance :: "KeywordImportance list \<Rightarrow> KeywordImportance list" where
  "sortByImportance xs = foldr insertByImportance xs []"

fun mapKeywordImportance ::
    "regexEngine \<Rightarrow> string list \<Rightarrow> string \<Rightarrow> error + KeywordImportance list" where
  "mapKeywordImportance engine [] context = Inr []"
| "mapKeywordImportance engine (kw # kws) context =
     (case calculateKeywordImportance engine kw (categorizeKeyword kw) context of
        Inl e \<Rightarrow> Inl e
      | Inr imp \<Rightarrow>
          (case mapKeywordImportance engine kws context of
             Inl e \<Rightarrow> Inl e
           | Inr rest \<Rightarrow>
               Inr (\<lparr>keyword = kw, importance = imp, category = categorizeKeyword kw,
                     contexts = extractKeywordContext kw context\<rparr> # rest)))"

definition analyzeKeywordImportance ::
    "regexEngine \<Rightarrow> string list \<Rightarrow> string \<Rightarrow> error + KeywordImportance list" where
  "analyzeKeywordImportance engine keywords context =
     (case mapKeywordImportance engine keywords context of
        Inl e \<Rightarrow> Inl e
      | Inr infos \<Rightarrow> Inr (sortByImportance infos))"

text \<open>\<open>calculateKeywordDensity\<close>; the list of words is never empty, so the divisor is not 0.\<close>

definition calculateKeywordDensity :: "string \<Rightarrow> string \<Rightarrow> jsnum" where
  "calculateKeywordDensity text kw =
     (if text = [] \<or> kw = [] then Num 0
      else let words = splitWhitespace (toLowerCase text);
               keywordCount = length (filter (\<lambda>word. str_includes word (toLowerCase kw)) words)
           in jsMul (jsDiv (ofNat keywordCount) (ofNat (length words))) (Num 100))"


section \<open>The ATS scorer\<close>

record ATSScoreDetails =
  totalKeywords :: nat
  matchedKeywords :: nat
  missingCriticalKeywords :: "string list"
  formatIssues :: "string list"
  contentIssues :: "string list"

text \<open>
  The four sub-scores that the program computes from integer constants alone are integers;
  \<open>keywordMatch\<close> and the overall score come out of a division and are numbers.
\<close>

record ATSScoreBreakdown =
  keywordMatch :: jsnum
  formatScore :: int
  contentScore :: int
  lengthScore :: int
  structureScore :: int
  details :: ATSScoreDetails

record ATSScoreResult =
  score :: jsnum
  breakdown :: ATSScoreBreakdown
  recommendations :: "string list"
  passesATS :: bool

subsection \<open>Keyword matching\<close>

definition synonyms :: "(string \<times> string list) list" where
  "synonyms =
     [(''javascript'', [''js'', ''ecmascript'']),
      (''python'', [''py'']),
      (''database'', [''db'', ''sql'']),
      (''frontend'', [''front-end'', ''front end'']),
      (''backend'', [''back-end'', ''back end'']),
      (''fullstack'', [''full-stack'', ''full stack''])]"

definition isKeywordMatch :: "string \<Rightarrow> string \<Rightarrow> bool" where
  "isKeywordMatch resumeKeyword jobKeyword =
     (let resume = toLowerCase resumeKeyword; job = toLowerCase jobKeyword in
      if resume = job then True
      else if str_includes resume job \<or> str_includes job resume then True
      else list_ex (\<lambda>(key, syns). (resume = key \<and> job \<in> set syns) \<or> (job = key \<and> resume \<in> set syns))
             synonyms)"

definition getKeywordImportance :: "string \<Rightarrow> nat" where
  "getKeywordImportance kw =
     (if list_ex (\<lambda>important. str_includes (toLowerCase kw) important)
           [''required'', ''must'', ''essential'', ''mandatory'',
            ''python'', ''javascript'', ''react'', ''aws'', ''sql'']
      then 10 else 5)"

definition findMatchedKeywords :: "string list \<Rightarrow> string list \<Rightarrow> string list" where
  "findMatchedKeywords resumeKeywords jobKeywords =
     filter (\<lambda>jobKw. list_ex (\<lambda>resumeKw. isKeywordMatch resumeKw jobKw) resumeKeywords) jobKeywords"

definition findMissingCriticalKeywords :: "string list \<Rightarrow> string list \<Rightarrow> string list" where
  "findMissingCriticalKeywords resumeKeywords jobKeywords =
     filter (\<lambda>criticalKw. \<not> list_ex (\<lambda>resumeKw. isKeywordMatch resumeKw criticalKw) resumeKeywords)
       (filter (\<lambda>kw. 8 \<le> getKeywordImportance kw) jobKeywords)"

definition calculateKeywordMatchScore :: "regexEngine \<Rightarrow> string \<Rightarrow> string list \<Rightarrow> error + jsnum" where
  "calculateKeywordMatchScore engine resumeText jobKeywords =
     (if jobKeywords = [] then Inr (Num 100)
      else let resumeKeywords = extractKeywords resumeText in
        case analyzeKeywordImportance engine jobKeywords resumeText of
          Inl e \<Rightarrow> Inl e
        | Inr keywordImportance \<Rightarrow>
            (let totalImportance =
                   fold (\<lambda>kwInfo total. jsAdd total (importance kwInfo)) keywordImportance (Num 0);
                 matchedImportance =
                   fold (\<lambda>kwInfo matched.
                           if list_ex (\<lambda>resumeKw. isKeywordMatch resumeKw (keyword kwInfo)) resumeKeywords
                           then jsAdd matched (importance kwInfo) else matched)
                        keywordImportance (Num 0)
             in if jsStrictEq totalImportance (Num 0) then Inr (Num 100)
                else Inr (jsMin (jsRound (jsMul (jsDiv matchedImportance totalImportance) (Num 100)))
                                (Num 100))))"

subsection \<open>Format, content, length and structure\<close>

text \<open>The class \<open>[\w\s.,!?()-]\<close>; \<open>/[^\w\s.,!?()-]/\<close> finds a character outside it.\<close>

definition usualChar :: "char \<Rightarrow> bool" where
  "usualChar c \<longleftrightarrow> isWordChar c \<or> isSpace c \<or> c \<in> set ''.,!?()-''"

definition identifyFormatIssues :: "string \<Rightarrow> string list" where
  "identifyFormatIssues resumeText =
     (if str_includes resumeText [CHR 0x09] \<or> str_includes resumeText ''  ''
      then [''Inconsistent spacing''] else []) @
     (if list_ex (\<lambda>c. \<not> usualChar c) resumeText then [''Unusual characters found''] else []) @
     (if \<not> list_ex (\<lambda>section. str_includes (toLowerCase resumeText) section)
              [''experience'', ''education'', ''skills'']
      then [''Missing standard sections''] else [])"

definition calculateFormatScore :: "string \<Rightarrow> int" where
  "calculateFormatScore resumeText =
     max (fold (\<lambda>issue score.
                  if issue = ''Complex formatting detected'' then score - 15
                  else if issue = ''Unusual characters found'' then score - 10
                  else if issue = ''Inconsistent spacing'' then score - 5
                  else if issue = ''Missing standard sections'' then score - 20
                  else score - 5)
               (identifyFormatIssues resumeText) 100) 0"

definition identifyContentIssues :: "string \<Rightarrow> string list" where
  "identifyContentIssues resumeText =
     (let hasNumbers = list_ex isDigit resumeText;
          hasPercentages = (CHR ''%'' \<in> set resumeText);
          hasCurrency = (CHR ''$'' \<in> set resumeText);
          hasStrongVerbs =
            list_ex (\<lambda>verb. str_includes (toLowerCase resumeText) verb)
              [''achieved'', ''improved'', ''increased'', ''reduced'', ''developed'',
               ''implemented'', ''managed'', ''led'', ''created'', ''optimized''];
          hasGenericPhrases =
            list_ex (\<lambda>phrase. str_includes (toLowerCase resumeText) phrase)
              [''responsible for'', ''duties included'', ''worked on'']
      in (if \<not> hasNumbers \<and> \<not> hasPercentages \<and> \<not> hasCurrency
          then [''Missing quantifiable achievements''] else []) @
         (if \<not> hasStrongVerbs then [''Weak action verbs''] else []) @
         (if \<not> str_includes (toLowerCase resumeText) ''skill'' then [''Missing skills section''] else []) @
         (if hasGenericPhrases then [''Generic job descriptions''] else []))"

definition calculateContentScore :: "string \<Rightarrow> int" where
  "calculateContentScore resumeText =
     max (fold (\<lambda>issue score.
                  if issue = ''Missing quantifiable achievements'' then score - 15
                  else if issue = ''Weak action verbs'' then score - 10
                  else if issue = ''No relevant keywords'' then score - 20
                  else if issue = ''Generic job descriptions'' then score - 12
                  else if issue = ''Missing skills section'' then score - 15
                  else score - 5)
               (identifyContentIssues resumeText) 100) 0"

definition calculateLengthScore :: "string \<Rightarrow> int" where
  "calculateLengthScore resumeText =
     (let wordCount = length (splitWhitespace resumeText) in
      if 400 \<le> wordCount \<and> wordCount \<le> 800 then 100
      else if 300 \<le> wordCount \<and> wordCount \<le> 1000 then 85
      else if 200 \<le> wordCount \<and> wordCount \<le> 1200 then 70
      else if wordCount < 200 then 40
      else 50)"

definition sectionKeywords :: "string list" where
  "sectionKeywords =
     [''summary'', ''objective'', ''profile'',
      ''experience'', ''work history'', ''employment'',
      ''education'', ''academic'',
      ''skills'', ''technical skills'', ''competencies'',
      ''projects'', ''portfolio'',
      ''certifications'', ''licenses'',
      ''awards'', ''achievements'',
      ''publications'', ''research'']"

definition identifyResumeSections :: "string \<Rightarrow> string list" where
  "identifyResumeSections resumeText =
     dedup (concat (map (\<lambda>line.
                           filter (\<lambda>kw. str_includes (toLowerCase (str_trim line)) kw \<and> length line < 50)
                             sectionKeywords)
                        (str_split CHR 0x0A resumeText)))"

definition idealOrder :: "string list" where
  "idealOrder =
     [''summary'', ''objective'', ''profile'',
      ''experience'', ''work history'', ''employment'',
      ''education'', ''academic'',
      ''skills'', ''technical skills'', ''competencies'',
      ''projects'', ''certifications'', ''awards'']"

text \<open>\<open>xs.indexOf(x)\<close>, with \<open>None\<close> for -1.\<close>

fun indexOf :: "'a list \<Rightarrow> 'a \<Rightarrow> nat option" where
  "indexOf [] x = None"
| "indexOf (y # ys) x = (if y = x then Some 0 else map_option Suc (indexOf ys x))"

fun sectionOrderLoop :: "int \<Rightarrow> string list \<Rightarrow> bool" where
  "sectionOrderLoop lastOrderIndex [] = True"
| "sectionOrderLoop lastOrderIndex (section # sections) =
     (case indexOf idealOrder section of
        None \<Rightarrow> sectionOrderLoop lastOrderIndex sections
      | Some orderIndex \<Rightarrow>
          if int orderIndex < lastOrderIndex then False
          else sectionOrderLoop (int orderIndex) sections)"

definition hasLogicalSectionOrder :: "string list \<Rightarrow> bool" where
  "hasLogicalSectionOrder sections = sectionOrderLoop (- 1) sections"

definition calculateStructureScore :: "string \<Rightarrow> int" where
  "calculateStructureScore resumeText =
     (let sections = identifyResumeSections resumeText;
          hasEssentialSections =
            list_all (\<lambda>section. list_ex (\<lambda>resumeSection. str_includes resumeSection section) sections)
              [''experience'', ''skills'', ''education''];
          beneficialCount =
            length (filter (\<lambda>section. list_ex (\<lambda>resumeSection. str_includes resumeSection section) sections)
                      [''summary'', ''projects'', ''certifications''])
      in min ((if hasEssentialSections then 60 else 0) + int beneficialCount * 10 +
              (if hasLogicalSectionOrder sections then 20 else 0)) 100)"

subsection \<open>Breakdown, overall score and recommendations\<close>

definition calculateScoreBreakdown :: "regexEngine \<Rightarrow> string \<Rightarrow> string list \<Rightarrow> error + ATSScoreBreakdown" where
  "calculateScoreBreakdown engine resumeText jobKeywords =
     (case calculateKeywordMatchScore engine resumeText jobKeywords of
        Inl e \<Rightarrow> Inl e
      | Inr km \<Rightarrow>
          (let resumeKeywords = extractKeywords resumeText in
           Inr \<lparr>keywordMatch = km,
                formatScore = calculateFormatScore resumeText,
                contentScore = calculateContentScore resumeText,
                lengthScore = calculateLengthScore resumeText,
                structureScore = calculateStructureScore resumeText,
                details =
                  \<lparr>totalKeywords = length jobKeywords,
                   matchedKeywords = length (findMatchedKeywords resumeKeywords jobKeywords),
                   missingCriticalKeywords = findMissingCriticalKeywords resumeKeywords jobKeywords,
                   formatIssues = identifyFormatIssues resumeText,
                   contentIssues = identifyContentIssues resumeText\<rparr>\<rparr>))"

record ScoreWeights =
  w_keywordMatch :: rat
  w_contentScore :: rat
  w_structureScore :: rat
  w_formatScore :: rat
  w_lengthScore :: rat

definition weights :: ScoreWeights where
  "weights = \<lparr>w_keywordMatch = 40 / 100, w_contentScore = 25 / 100, w_structureScore = 15 / 100,
              w_formatScore = 10 / 100, w_lengthScore = 10 / 100\<rparr>"

definition calculateOverallScore :: "ATSScoreBreakdown \<Rightarrow> jsnum" where
  "calculateOverallScore b =
     jsRound
       (jsAdd (jsAdd (jsAdd (jsAdd
          (jsMul (keywordMatch b) (Num (w_keywordMatch weights)))
          (jsMul (ofInt (contentScore b)) (Num (w_contentScore weights))))
          (jsMul (ofInt (structureScore b)) (Num (w_structureScore weights))))
          (jsMul (ofInt (formatScore b)) (Num (w_formatScore weights))))
          (jsMul (ofInt (lengthScore b)) (Num (w_lengthScore weights))))"

definition generateRecommendations :: "ATSScoreBreakdown \<Rightarrow> string list" where
  "generateRecommendations b =
     take 5
      ((if jsLess (keywordMatch b) (Num 70)
        then [''Add more relevant keywords from the job description''] @
             (if 0 < length (missingCriticalKeywords (details b))
              then [''Include these critical keywords: '' @
                    str_join '', '' (take 3 (missingCriticalKeywords (details b)))]
              else [])
        else []) @
       (if formatScore b < 80
        then (if ''Missing standard sections'' \<in> set (formatIssues (details b))
              then [''Add standard resume sections: Experience, Education, Skills''] else []) @
             (if ''Inconsistent spacing'' \<in> set (formatIssues (details b))
              then [''Use consistent spacing and formatting throughout''] else [])
        else []) @
       (if contentScore b < 80
        then (if ''Missing quantifiable achievements'' \<in> set (contentIssues (details b))
              then [''Add numbers, percentages, and metrics to quantify your achievements''] else []) @
             (if ''Weak action verbs'' \<in> set (contentIssues (details b))
              then [''Use strong action verbs like '' @ [CHR 0x22] @ ''achieved,'' @ [CHR 0x22, CHR '' '', CHR 0x22] @
                    ''improved,'' @ [CHR 0x22, CHR '' '', CHR 0x22] @ ''developed'' @ [CHR 0x22]]
              else [])
        else []) @
       (if structureScore b < 80
        then [''Organize sections in logical order: Summary, Experience, Education, Skills'']
        else []) @
       (if lengthScore b < 80
        then (let wordCount = totalKeywords (details b) in
              if wordCount < 400
              then [''Expand your resume with more detailed descriptions (aim for 400-800 words)'']
              else if 800 < wordCount
              then [''Condense your resume to focus on most relevant information (aim for 400-800 words)'']
              else [])
        else []))"

definition calculateATSScore :: "regexEngine \<Rightarrow> string \<Rightarrow> string list \<Rightarrow> error + ATSScoreResult" where
  "calculateATSScore engine resumeText jobKeywords =
     (case calculateScoreBreakdown engine resumeText jobKeywords of
        Inl e \<Rightarrow> Inl e
      | Inr b \<Rightarrow>
          (let overallScore = calculateOverallScore b in
           Inr \<lparr>score = overallScore,
                breakdown = b,
                recommendations = generateRecommendations b,
                passesATS = jsGreaterEq overallScore (Num 70)\<rparr>))"

section \<open>The tailoring engine\<close>

datatype priority = High | Medium | Low

record KeywordMatch =
  km_keyword :: string
  inResume :: bool
  frequency :: nat
  km_importance :: priority
  suggestedPlacements :: "string list"

record TailordSuggestion =
  s_section :: string
  original :: string
  suggested :: string
  reason :: string
  impact :: int

record ResumeSection =
  name :: string
  content :: string
  startIndex :: nat

record TailoringRequest =
  resumeText :: string
  jobDescription :: string
  targetRole :: string
  company :: "string option"

record TailoringResult =
  tailoredResume :: string
  atsScore :: jsnum
  keywordMatches :: "KeywordMatch list"
  suggestions :: "TailordSuggestion list"
  improvements :: "string list"
  originalScore :: jsnum

subsection \<open>String replacement\<close>

text \<open>
  \<open>text.indexOf(pattern)\<close> as the text before and after the first occurrence of the
  pattern; \<open>None\<close> when the pattern does not occur.
\<close>

fun splitAtFirst :: "string \<Rightarrow> string \<Rightarrow> (string \<times> string) option" where
  "splitAtFirst [] p = (if p = [] then Some ([], []) else None)"
| "splitAtFirst (c # cs) p =
     (if startsWith (c # cs) p then Some ([], drop (length p) (c # cs))
      else map_option (\<lambda>(front, back). (c # front, back)) (splitAtFirst cs p))"

text \<open>
  \<open>text.replace(pattern, replacement)\<close> with a string pattern replaces the first occurrence
  only, and reads the replacement as a template: \<open>$$\<close> stands for a dollar sign, \<open>$&\<close> for
  the matched text, \<open>$`\<close> for the text before the match and \<open>$'\<close> for the text after it.
  There are no groups, so a dollar sign before anything else stands for itself.
\<close>

fun getSubstitution :: "string \<Rightarrow> string \<Rightarrow> string \<Rightarrow> string \<Rightarrow> string" where
  "getSubstitution matched front back [] = []"
| "getSubstitution matched front back [c] = [c]"
| "getSubstitution matched front back (c # d # rest) =
     (if c = CHR ''$'' \<and> d = CHR ''$'' then CHR ''$'' # getSubstitution matched front back rest
      else if c = CHR ''$'' \<and> d = CHR ''&'' then matched @ getSubstitution matched front back rest
      else if c = CHR ''$'' \<and> d = CHR 0x60 then front @ getSubstitution matched front back rest
      else if c = CHR ''$'' \<and> d = CHR 0x27 then back @ getSubstitution matched front back rest
      else c # getSubstitution matched front back (d # rest))"

definition jsReplace :: "string \<Rightarrow> string \<Rightarrow> string \<Rightarrow> string" where
  "jsReplace text pattern replacement =
     (case splitAtFirst text pattern of
        None \<Rightarrow> text
      | Some (front, back) \<Rightarrow> front @ getSubstitution pattern front back replacement @ back)"

text \<open>A number written in decimal, as a template literal prints it.\<close>

fun showNat :: "nat \<Rightarrow> string" where
  "showNat n =
     (if n < 10 then [char_of (48 + n)]
      else showNat (n div 10) @ [char_of (48 + n mod 10)])"

subsection \<open>Keyword matches\<close>

text \<open>
  \<open>countKeywordFrequency\<close>: the keyword, every syntax character of it escaped, is matched
  as it stands, with no regard to letter case, from left to right and without overlap;
  the empty keyword matches once at every position.
\<close>

fun countLiteralFrom :: "nat \<Rightarrow> string \<Rightarrow> string \<Rightarrow> nat" where
  "countLiteralFrom skip pat [] = 0"
| "countLiteralFrom skip pat (c # cs) =
     (if 0 < skip then countLiteralFrom (skip - 1) pat cs
      else if startsWith (toLowerCase (c # cs)) (toLowerCase pat)
        then 1 + countLiteralFrom (length pat - 1) pat cs
      else countLiteralFrom 0 pat cs)"

definition countKeywordFrequency :: "string \<Rightarrow> string \<Rightarrow> nat" where
  "countKeywordFrequency text kw =
     (if kw = [] then length text + 1 else countLiteralFrom 0 kw text)"

definition determineKeywordImportance :: "string \<Rightarrow> priority" where
  "determineKeywordImportance kw =
     (let lowerKeyword = toLowerCase kw in
      if list_ex (\<lambda>pattern. str_includes lowerKeyword pattern)
           [''required'', ''must have'', ''essential'', ''critical'', ''mandatory'',
            ''python'', ''javascript'', ''react'', ''aws'', ''sql'', ''docker'']
        then High
      else if list_ex (\<lambda>pattern. str_includes lowerKeyword pattern)
           [''preferred'', ''desired'', ''nice to have'', ''bonus'',
            ''git'', ''agile'', ''scrum'', ''testing'']
        then Medium
      else Low)"

text \<open>
  \<open>resumeText.split(/\n\s*\n/)\<close>: a separator starts at a line feed and ends at the last
  line feed of the white space that follows it. \<open>blankLineMatch\<close> is the length of the
  separator at the start of a string.
\<close>

definition blankLineMatch :: "string \<Rightarrow> nat option" where
  "blankLineMatch s =
     (case s of
        [] \<Rightarrow> None
      | c # cs \<Rightarrow>
          if c = CHR 0x0A \<and> CHR 0x0A \<in> set (takeWhile isSpace cs)
          then Some (1 + length (takeWhile isSpace cs)
                       - length (takeWhile (\<lambda>d. d \<noteq> CHR 0x0A) (rev (takeWhile isSpace cs))))
          else None)"

fun splitBlankLines :: "nat \<Rightarrow> string \<Rightarrow> string list" where
  "splitBlankLines skip [] = [ [] ]"
| "splitBlankLines skip (c # cs) =
     (if 0 < skip then splitBlankLines (skip - 1) cs
      else (case blankLineMatch (c # cs) of
              Some n \<Rightarrow> [] # splitBlankLines (n - 1) cs
            | None \<Rightarrow>
                (case splitBlankLines 0 cs of
                   [] \<Rightarrow> [ [c] ]
                 | w # ws \<Rightarrow> (c # w) # ws)))"

definition suggestKeywordPlacements :: "string \<Rightarrow> string \<Rightarrow> string list" where
  "suggestKeywordPlacements kw resume =
     (let sections = splitBlankLines 0 resume;
          technicalSuggestion =
            (if categorizeKeyword kw = Technical
             then (case find (\<lambda>section. str_includes (toLowerCase section) ''skill'' \<or>
                                         str_includes (toLowerCase section) ''technical'') sections of
                     None \<Rightarrow> []
                   | Some skillsSection \<Rightarrow>
                       if skillsSection \<noteq> [] \<and>
                          \<not> str_includes (toLowerCase skillsSection) (toLowerCase kw)
                       then [''Add to Skills/Technical Skills section''] else [])
             else []);
          actionSuggestion =
            (if categorizeKeyword kw = Action
             then (case find (\<lambda>section. str_includes (toLowerCase section) ''experience'' \<or>
                                         str_includes (toLowerCase section) ''work history'') sections of
                     None \<Rightarrow> []
                   | Some experienceSection \<Rightarrow>
                       if experienceSection \<noteq> [] \<and>
                          \<not> str_includes (toLowerCase experienceSection) (toLowerCase kw)
                       then [''Incorporate into job descriptions in Experience section''] else [])
             else [])
      in if technicalSuggestion @ actionSuggestion = []
         then [''Add to relevant bullet points in Experience section'',
               ''Include in Skills section if applicable'',
               ''Mention in Summary/Objective section'']
         else technicalSuggestion @ actionSuggestion)"

definition analyzeKeywordMatches :: "string list \<Rightarrow> string list \<Rightarrow> string \<Rightarrow> KeywordMatch list" where
  "analyzeKeywordMatches jobKeywords resumeKeywords resume =
     map (\<lambda>kw.
            \<lparr>km_keyword = kw,
             inResume = list_ex (\<lambda>rk. str_includes (toLowerCase rk) (toLowerCase kw) \<or>
                                      str_includes (toLowerCase kw) (toLowerCase rk)) resumeKeywords,
             frequency = countKeywordFrequency resume kw,
             km_importance = determineKeywordImportance kw,
             suggestedPlacements = suggestKeywordPlacements kw resume\<rparr>)
         jobKeywords"

subsection \<open>Sections of the resume\<close>

definition sectionHeaders :: "string list" where
  "sectionHeaders =
     [''summary'', ''objective'', ''experience'', ''work experience'', ''employment'',
      ''skills'', ''technical skills'', ''education'', ''projects'', ''achievements'',
      ''certifications'', ''awards'']"

fun parseLines :: "ResumeSection list \<Rightarrow> ResumeSection \<Rightarrow> nat \<Rightarrow> string list \<Rightarrow> ResumeSection list" where
  "parseLines sections currentSection index [] =
     (if str_trim (content currentSection) \<noteq> [] then sections @ [currentSection] else sections)"
| "parseLines sections currentSection index (line # lines) =
     (case find (\<lambda>header. str_includes (str_trim (toLowerCase line)) header \<and> length line < 50)
             sectionHeaders of
        Some foundHeader \<Rightarrow>
          parseLines
            (if str_trim (content currentSection) \<noteq> [] then sections @ [currentSection] else sections)
            \<lparr>name = foundHeader, content = line @ [CHR 0x0A], startIndex = index\<rparr>
            (Suc index) lines
      | None \<Rightarrow>
          parseLines sections
            (currentSection\<lparr>content := content currentSection @ line @ [CHR 0x0A]\<rparr>)
            (Suc index) lines)"

definition parseResumeIntoSections :: "string \<Rightarrow> ResumeSection list" where
  "parseResumeIntoSections resume =
     parseLines [] \<lparr>name = ''header'', content = [], startIndex = 0\<rparr> 0 (str_split CHR 0x0A resume)"

definition isTechnicalKeyword :: "string \<Rightarrow> bool" where
  "isTechnicalKeyword kw =
     list_ex (\<lambda>pattern. str_includes (toLowerCase kw) pattern)
       [''python'', ''javascript'', ''react'', ''node'', ''sql'', ''aws'', ''docker'',
        ''kubernetes'', ''git'', ''api'', ''database'', ''cloud'', ''devops'']"

definition isActionKeyword :: "string \<Rightarrow> bool" where
  "isActionKeyword kw =
     list_ex (\<lambda>pattern. str_includes (toLowerCase kw) pattern)
       [''developed'', ''implemented'', ''managed'', ''led'', ''created'',
        ''designed'', ''optimized'', ''improved'', ''collaborated'']"

text \<open>\<open>sections.find(p) || sections[0]\<close>: the first section that fits, else the first section.\<close>

definition findOrFirst :: "(ResumeSection \<Rightarrow> bool) \<Rightarrow> ResumeSection list \<Rightarrow> ResumeSection option" where
  "findOrFirst p sections =
     (case find p sections of
        Some s \<Rightarrow> Some s
      | None \<Rightarrow> (case sections of [] \<Rightarrow> None | s # rest \<Rightarrow> Some s))"

definition findBestSectionForKeyword :: "string \<Rightarrow> ResumeSection list \<Rightarrow> ResumeSection option" where
  "findBestSectionForKeyword kw sections =
     (if isTechnicalKeyword kw then findOrFirst (\<lambda>s. str_includes (name s) ''skill'') sections
      else if isActionKeyword kw
        then findOrFirst (\<lambda>s. str_includes (name s) ''experience'' \<or> str_includes (name s) ''employment'')
               sections
      else findOrFirst (\<lambda>s. name s \<noteq> ''header'') sections)"

subsection \<open>Suggestions\<close>

text \<open>
  The bullet that \<open>startsWith\<close> looks for is U+2022, which is no code unit of the strings
  modelled here: no line of them starts with it.
\<close>

definition startsWithBullet :: "string \<Rightarrow> bool" where
  "startsWithBullet line = False"

definition enhanceLineWithKeyword :: "string \<Rightarrow> string \<Rightarrow> string" where
  "enhanceLineWithKeyword line kw =
     (if str_includes line ''experience'' \<or> str_includes line ''worked''
      then jsReplace line ''experience'' (''experience with '' @ kw)
      else if startsWithBullet line \<or> startsWith line ''-''
      then line @ '' utilizing '' @ kw
      else line @ '' ('' @ kw @ '')'')"

fun incorporateLoop :: "string \<Rightarrow> string list \<Rightarrow> string list" where
  "incorporateLoop kw [] = []"
| "incorporateLoop kw (l # ls) =
     (let line = str_trim l in
      if (startsWithBullet line \<or> startsWith line ''-'' \<or> str_includes line ''experience'') \<and>
         \<not> str_includes (toLowerCase line) (toLowerCase kw)
      then enhanceLineWithKeyword line kw # ls
      else l # incorporateLoop kw ls)"

definition incorporateKeyword :: "string \<Rightarrow> string \<Rightarrow> string" where
  "incorporateKeyword sectionContent kw =
     str_join [CHR 0x0A] (incorporateLoop kw (str_split CHR 0x0A sectionContent))"

definition quoted :: "string \<Rightarrow> string" where
  "quoted s = [CHR 0x22] @ s @ [CHR 0x22]"

definition missingKeywordSuggestions :: "ResumeSection list \<Rightarrow> KeywordMatch list \<Rightarrow> TailordSuggestion list" where
  "missingKeywordSuggestions resumeSections kms =
     concat (map (\<lambda>km.
                    case findBestSectionForKeyword (km_keyword km) resumeSections of
                      None \<Rightarrow> []
                    | Some bestSection \<Rightarrow>
                        [\<lparr>s_section = name bestSection,
                          original = content bestSection,
                          suggested = incorporateKeyword (content bestSection) (km_keyword km),
                          reason = ''Add high-priority keyword '' @ quoted (km_keyword km) @
                                   '' to improve ATS matching'',
                          impact = 15\<rparr>])
                 (filter (\<lambda>km. \<not> inResume km \<and> km_importance km = High) kms))"

definition strengthenWeakSections ::
    "ResumeSection list \<Rightarrow> KeywordMatch list \<Rightarrow> string \<Rightarrow> TailordSuggestion list" where
  "strengthenWeakSections sections kms role =
     concat (map (\<lambda>section.
                    let sectionKeywordCount =
                          length (filter (\<lambda>km. str_includes (toLowerCase (content section))
                                                  (toLowerCase (km_keyword km))) kms);
                        relevantKeywords =
                          take 2 (filter (\<lambda>km. \<not> inResume km \<and> km_importance km \<noteq> Low) kms)
                    in if sectionKeywordCount < 2 \<and> name section \<noteq> ''header'' \<and> 0 < length relevantKeywords
                       then [\<lparr>s_section = name section,
                              original = content section,
                              suggested = fold (\<lambda>km enhancedContent.
                                                  incorporateKeyword enhancedContent (km_keyword km))
                                               relevantKeywords (content section),
                              reason = ''Strengthen '' @ name section @ '' section with relevant keywords'',
                              impact = 10\<rparr>]
                       else [])
                 sections)"

definition optimizeKeywordDensity :: "ResumeSection list \<Rightarrow> KeywordMatch list \<Rightarrow> TailordSuggestion list" where
  "optimizeKeywordDensity sections kms =
     concat (map (\<lambda>km.
                    if inResume km \<and> 0 < frequency km
                    then (let density = calculateKeywordDensity
                                          (str_join '' '' (map content sections)) (km_keyword km)
                          in if jsLess (Num 3) density
                             then [\<lparr>s_section = ''overall'',
                                    original = km_keyword km,
                                    suggested = ''Reduce repetition of '' @ quoted (km_keyword km),
                                    reason = ''Avoid keyword stuffing which can hurt ATS scoring'',
                                    impact = - 5\<rparr>]
                             else if jsLess density (Num (1 / 2)) \<and> km_importance km = High
                             then [\<lparr>s_section = ''overall'',
                                    original = km_keyword km,
                                    suggested = ''Increase usage of '' @ quoted (km_keyword km),
                                    reason = ''Important keyword needs more presence in resume'',
                                    impact = 8\<rparr>]
                             else [])
                    else [])
                 kms)"

text \<open>\<open>sort((a, b) => b.impact - a.impact)\<close>: a stable sort, the larger impact first.\<close>

fun insertByImpact :: "TailordSuggestion \<Rightarrow> TailordSuggestion list \<Rightarrow> TailordSuggestion list" where
  "insertByImpact a [] = [a]"
| "insertByImpact a (b # bs) =
     (if impact a < impact b then b # insertByImpact a bs else a # b # bs)"

definition sortByImpact :: "TailordSuggestion list \<Rightarrow> TailordSuggestion list" where
  "sortByImpact xs = foldr insertByImpact xs []"

definition generateTailoringSuggestions ::
    "string \<Rightarrow> KeywordMatch list \<Rightarrow> string \<Rightarrow> TailordSuggestion list" where
  "generateTailoringSuggestions resume kms role =
     (let resumeSections = parseResumeIntoSections resume in
      sortByImpact (missingKeywordSuggestions resumeSections kms @
                    strengthenWeakSections resumeSections kms role @
                    optimizeKeywordDensity resumeSections kms))"

definition applySuggestion :: "string \<Rightarrow> TailordSuggestion \<Rightarrow> string" where
  "applySuggestion tailored suggestion =
     (if str_includes tailored (original suggestion)
      then jsReplace tailored (original suggestion) (suggested suggestion)
      else tailored)"

definition applyTailoringChanges :: "string \<Rightarrow> TailordSuggestion list \<Rightarrow> string" where
  "applyTailoringChanges resume sugs = fold (\<lambda>suggestion tailored. applySuggestion tailored suggestion) sugs resume"

definition generateImprovements :: "KeywordMatch list \<Rightarrow> TailordSuggestion list \<Rightarrow> string list" where
  "generateImprovements kms sugs =
     (let missingKeywords = filter (\<lambda>km. \<not> inResume km) kms;
          highImpactSuggestions = filter (\<lambda>s. 10 < impact s) sugs;
          weakSections = filter (\<lambda>s. str_includes (reason s) ''Strengthen'') sugs
      in (if 0 < length missingKeywords
          then [''Add '' @ showNat (length missingKeywords) @ '' missing keywords to improve job match'']
          else []) @
         (if 0 < length highImpactSuggestions
          then [showNat (length highImpactSuggestions) @ '' high-impact changes identified'']
          else []) @
         (if 0 < length weakSections
          then [''Strengthen '' @ showNat (length weakSections) @ '' sections with relevant keywords'']
          else []))"

text \<open>The exported function \<open>calculateATSScore\<close>, which returns the overall score alone.\<close>

definition calculateATSScoreValue :: "regexEngine \<Rightarrow> string \<Rightarrow> string list \<Rightarrow> error + jsnum" where
  "calculateATSScoreValue engine resume jobKeywords =
     (case calculateATSScore engine resume jobKeywords of
        Inl e \<Rightarrow> Inl e
      | Inr result \<Rightarrow> Inr (score result))"

definition tailorResume :: "regexEngine \<Rightarrow> TailoringRequest \<Rightarrow> error + TailoringResult" where
  "tailorResume engine request =
     (let jobKeywords = extractKeywords (jobDescription request) in
      case calculateATSScoreValue engine (resumeText request) jobKeywords of
        Inl e \<Rightarrow> Inl e
      | Inr original_score \<Rightarrow>
          (let currentKeywords = extractKeywords (resumeText request);
               kms = analyzeKeywordMatches jobKeywords currentKeywords (resumeText request);
               sugs = generateTailoringSuggestions (resumeText request) kms (targetRole request);
               tailored = applyTailoringChanges (resumeText request) sugs
           in case calculateATSScoreValue engine tailored jobKeywords of
                Inl e \<Rightarrow> Inl e
              | Inr newATSScore \<Rightarrow>
                  Inr \<lparr>tailoredResume = tailored,
                       atsScore = newATSScore,
                       keywordMatches = kms,
                       suggestions = sugs,
                       improvements = generateImprovements kms sugs,
                       originalScore = original_score\<rparr>))"

section \<open>The job posting analyzer\<close>

subsection \<open>Regular expression literals\<close>

text \<open>
  A regular expression literal of the program is written as a backtracking matcher. A
  matcher takes the rest of the input and the groups captured so far, and gives every
  way to go on, the preferred way first.
\<close>

type_synonym matchState = "string \<times> string list"
type_synonym matcher = "matchState \<Rightarrow> matchState list"

text \<open>One character of a class.\<close>

definition mChar :: "(char \<Rightarrow> bool) \<Rightarrow> matcher" where
  "mChar P st =
     (case fst st of
        [] \<Rightarrow> []
      | c # cs \<Rightarrow> if P c then [(cs, snd st)] else [])"

text \<open>One after the other, and one or else the other.\<close>

definition mSeq :: "matcher \<Rightarrow> matcher \<Rightarrow> matcher" where
  "mSeq a b st = concat (map b (a st))"

definition mAlt :: "matcher \<Rightarrow> matcher \<Rightarrow> matcher" where
  "mAlt a b st = a st @ b st"

text \<open>
  The greedy repetition \<open>{lo,hi}\<close>: one more round first, then stopping here when \<open>lo\<close>
  rounds are done. The star is the repetition with no lower bound and as many rounds as
  characters are left, each round taking at least one.
\<close>

fun mRepeat :: "nat \<Rightarrow> nat \<Rightarrow> matcher \<Rightarrow> matcher" where
  "mRepeat lo 0 m st = (if lo = 0 then [st] else [])"
| "mRepeat lo (Suc hi) m st =
     concat (map (mRepeat (lo - 1) hi m) (m st)) @ (if lo = 0 then [st] else [])"

definition mStar :: "matcher \<Rightarrow> matcher" where
  "mStar m st = mRepeat 0 (length (fst st)) m st"

text \<open>A capturing group: what the inner matcher consumed is added to the groups.\<close>

definition mGroup :: "matcher \<Rightarrow> matcher" where
  "mGroup m st =
     map (\<lambda>(rest, groups). (rest, groups @ [take (length (fst st) - length rest) (fst st)])) (m st)"

text \<open>A literal under the flag \<open>i\<close>: each character, with no regard to letter case.\<close>

fun mLiteral :: "string \<Rightarrow> matcher" where
  "mLiteral [] st = [st]"
| "mLiteral (p # ps) st = mSeq (mChar (\<lambda>c. toLowerChar c = toLowerChar p)) (mLiteral ps) st"

text \<open>\<open>text.match(regex)\<close> without the flag \<open>g\<close>: the groups of the leftmost match.\<close>

fun searchFirst :: "matcher \<Rightarrow> string \<Rightarrow> string list option" where
  "searchFirst m [] = (case m ([], []) of [] \<Rightarrow> None | (rest, groups) # others \<Rightarrow> Some groups)"
| "searchFirst m (c # cs) =
     (case m (c # cs, []) of
        [] \<Rightarrow> searchFirst m cs
      | (rest, groups) # others \<Rightarrow> Some groups)"

text \<open>The amount \<open>(\d{1,3}(?:,\d{3})*)\<close>, and \<open>\s*\<close>.\<close>

definition amount :: matcher where
  "amount =
     mGroup (mSeq (mRepeat 1 3 (mChar isDigit))
                  (mStar (mSeq (mChar (\<lambda>c. c = CHR '','')) (mRepeat 3 3 (mChar isDigit)))))"

definition spaces :: matcher where
  "spaces = mStar (mChar isSpace)"

definition dollar :: matcher where
  "dollar = mChar (\<lambda>c. c = CHR ''$'')"

definition dash :: matcher where
  "dash = mChar (\<lambda>c. c = CHR ''-'')"

record SalaryPattern =
  source :: string
  matches :: matcher

definition backslash :: string where
  "backslash = [CHR 0x5C]"

text \<open>
  \<open>/\$(\d{1,3}(?:,\d{3})*)\s*-\s*\$(\d{1,3}(?:,\d{3})*)\s*(per year|annually|yearly)/i\<close>,
  \<open>/\$(\d{1,3}(?:,\d{3})*)\s*-\s*\$(\d{1,3}(?:,\d{3})*)\s*k/i\<close> and
  \<open>/(\d{1,3})k\s*-\s*(\d{1,3})k/i\<close>, each with its source text.
\<close>

definition amountSource :: string where
  "amountSource = ''('' @ backslash @ ''d{1,3}(?:,'' @ backslash @ ''d{3})*)''"

definition rangeSource :: string where
  "rangeSource =
     backslash @ ''$'' @ amountSource @ backslash @ ''s*-'' @ backslash @ ''s*'' @
     backslash @ ''$'' @ amountSource @ backslash @ ''s*''"

definition salaryPattern1 :: SalaryPattern where
  "salaryPattern1 =
     \<lparr>source = rangeSource @ ''(per year|annually|yearly)'',
      matches = mSeq dollar (mSeq amount (mSeq spaces (mSeq dash (mSeq spaces (mSeq dollar
                  (mSeq amount (mSeq spaces
                     (mGroup (mAlt (mLiteral ''per year'')
                               (mAlt (mLiteral ''annually'') (mLiteral ''yearly'')))))))))))\<rparr>"

definition salaryPattern2 :: SalaryPattern where
  "salaryPattern2 =
     \<lparr>source = rangeSource @ ''k'',
      matches = mSeq dollar (mSeq amount (mSeq spaces (mSeq dash (mSeq spaces (mSeq dollar
                  (mSeq amount (mSeq spaces (mLiteral ''k''))))))))\<rparr>"

definition salaryPattern3 :: SalaryPattern where
  "salaryPattern3 =
     \<lparr>source = ''('' @ backslash @ ''d{1,3})k'' @ backslash @ ''s*-'' @ backslash @ ''s*('' @
               backslash @ ''d{1,3})k'',
      matches = mSeq (mGroup (mRepeat 1 3 (mChar isDigit))) (mSeq (mLiteral ''k'')
                  (mSeq spaces (mSeq dash (mSeq spaces
                     (mSeq (mGroup (mRepeat 1 3 (mChar isDigit))) (mLiteral ''k''))))))\<rparr>"

definition salaryPatterns :: "SalaryPattern list" where
  "salaryPatterns = [salaryPattern1, salaryPattern2, salaryPattern3]"

text \<open>
  \<open>parseInt\<close> of a string: the value of the decimal digits it starts with, \<open>NaN\<close> when it
  starts with none. The strings it is given here are digits with the commas taken out.
  The value is kept exact; the program has the nearest floating-point number, which is
  the same up to \<open>2^53\<close>.
\<close>

definition parseInt :: "string \<Rightarrow> jsnum" where
  "parseInt s =
     (if takeWhile isDigit s = [] then NaN
      else ofNat (fold (\<lambda>c n. 10 * n + (of_char c - 48)) (takeWhile isDigit s) 0))"

record SalaryRange =
  salaryMin :: jsnum
  salaryMax :: jsnum
  currency :: string
  period :: string

text \<open>
  The loop over the patterns: the first pattern that matches gives the range. Each pattern
  has two groups at least, so \<open>match[1]\<close> and \<open>match[2]\<close> are the first two of the groups
  of a match.
\<close>

fun salaryLoop :: "SalaryPattern list \<Rightarrow> string \<Rightarrow> SalaryRange option" where
  "salaryLoop [] jobText = None"
| "salaryLoop (pattern # patterns) jobText =
     (case searchFirst (matches pattern) jobText of
        None \<Rightarrow> salaryLoop patterns jobText
      | Some groups \<Rightarrow>
          (let lo = parseInt (filter (\<lambda>c. c \<noteq> CHR '','') (groups ! 0));
               hi = parseInt (filter (\<lambda>c. c \<noteq> CHR '','') (groups ! 1))
           in if str_includes (source pattern) ''k''
              then Some \<lparr>salaryMin = jsMul lo (Num 1000), salaryMax = jsMul hi (Num 1000),
                         currency = ''USD'', period = ''yearly''\<rparr>
              else Some \<lparr>salaryMin = lo, salaryMax = hi,
                         currency = ''USD'', period = ''yearly''\<rparr>))"

definition extractSalaryRange :: "string \<Rightarrow> SalaryRange option" where
  "extractSalaryRange jobText = salaryLoop salaryPatterns jobText"

text \<open>\<open>cleanJobText\<close>: white space collapsed, every character outside \<open>[\w\s.,!?()-]\<close> made a space, trimmed.\<close>

definition cleanJobText :: "string \<Rightarrow> string" where
  "cleanJobText jobText =
     str_trim (map (\<lambda>c. if usualChar c then c else CHR '' '') (collapseWhitespace jobText))"

subsection \<open>The skills\<close>

text \<open>
  \<open>new RegExp(pattern, flags)\<close> raises a syntax error when a quantifier (\<open>*\<close>, \<open>+\<close> or
  \<open>?\<close>) has nothing to repeat: at the start of the pattern, after the assertions \<open>\b\<close>
  and \<open>\B\<close>, and after another quantifier, where one \<open>?\<close> may follow and then no
  quantifier at all. It raises one as well when the pattern ends with a single
  backslash. A backslash with the character after it is one term; the other characters
  are one term each. This decides every pattern with no bracket, brace, bar, caret or
  dollar in it.
\<close>

datatype patternState = AtStart | AfterAtom | AfterQuantifier

definition bracketChars :: "char list" where
  "bracketChars =
     [CHR ''^'', CHR ''$'', CHR ''('', CHR '')'', CHR ''['', CHR '']'', CHR ''{'', CHR ''}'', CHR ''|'']"

fun malformedPattern :: "patternState \<Rightarrow> string \<Rightarrow> bool" where
  "malformedPattern st [] = False"
| "malformedPattern st (c # cs) =
     (if c = CHR 0x5C then
        (case cs of
           [] \<Rightarrow> True
         | d # ds \<Rightarrow>
             malformedPattern (if d = CHR ''b'' \<or> d = CHR ''B'' then AtStart else AfterAtom) ds)
      else if c = CHR ''*'' \<or> c = CHR ''+'' then
        (if st = AfterAtom then malformedPattern AfterQuantifier cs else True)
      else if c = CHR ''?'' then
        (if st = AfterAtom then malformedPattern AfterQuantifier cs
         else if st = AfterQuantifier then malformedPattern AtStart cs
         else True)
      else malformedPattern AfterAtom cs)"

text \<open>
  A pattern of ordinary characters and dots under the flag \<open>i\<close>, at the start of a text:
  what is left of the text behind the match.
\<close>

fun matchAtI :: "string \<Rightarrow> string \<Rightarrow> string option" where
  "matchAtI [] t = Some t"
| "matchAtI (p # ps) [] = None"
| "matchAtI (p # ps) (c # cs) =
     (if (if p = CHR ''.'' then \<not> isLineTerminator c else toLowerChar p = toLowerChar c)
      then matchAtI ps cs else None)"

text \<open>
  \<open>\b\<close> holds between two neighbours of which exactly one is a word character; the
  two ends of the text count as no word character.
\<close>

definition isWordNeighbour :: "char option \<Rightarrow> bool" where
  "isWordNeighbour n = (case n of None \<Rightarrow> False | Some c \<Rightarrow> isWordChar c)"

definition wordBoundary :: "char option \<Rightarrow> char option \<Rightarrow> bool" where
  "wordBoundary a b \<longleftrightarrow> isWordNeighbour a \<noteq> isWordNeighbour b"

definition firstChar :: "string \<Rightarrow> char option" where
  "firstChar t = (case t of [] \<Rightarrow> None | c # cs \<Rightarrow> Some c)"

text \<open>
  \<open>\bpat\b\<close> at the start of a text of which \<open>prev\<close> is the character before it, and
  anywhere in the text.
\<close>

definition wordMatchAt :: "char option \<Rightarrow> string \<Rightarrow> string \<Rightarrow> bool" where
  "wordMatchAt prev pat t =
     (wordBoundary prev (firstChar t) \<and>
      (case matchAtI pat t of
         None \<Rightarrow> False
       | Some rest \<Rightarrow>
           wordBoundary (if pat = [] then prev else Some (t ! (length pat - 1))) (firstChar rest)))"

fun wordSearch :: "char option \<Rightarrow> string \<Rightarrow> string \<Rightarrow> bool" where
  "wordSearch prev pat [] = wordMatchAt prev pat []"
| "wordSearch prev pat (c # cs) = (wordMatchAt prev pat (c # cs) \<or> wordSearch (Some c) pat cs)"

text \<open>
  \<open>jobText.match(new RegExp(`\\b${skill}\\b`, 'gi'))\<close>, as a truth value: the constructor
  raises for a malformed pattern; a skill of ordinary characters and dots is searched
  for here; for any other skill the answer is the host engine's under the flags \<open>gi\<close>,
  the parameter \<open>engineI\<close>.
\<close>

definition skillPattern :: "string \<Rightarrow> string" where
  "skillPattern skill = backslash @ ''b'' @ skill @ backslash @ ''b''"

definition matchesSkill :: "regexEngine \<Rightarrow> string \<Rightarrow> string \<Rightarrow> error + bool" where
  "matchesSkill engineI skill jobText =
     (if \<not> list_ex (\<lambda>c. c \<in> set bracketChars) skill \<and> malformedPattern AtStart (skillPattern skill)
        then Inl SyntaxError
      else if list_ex (\<lambda>c. c \<in> set otherSyntaxChars) skill
        then (case engineI (skillPattern skill) jobText of
                None \<Rightarrow> Inl SyntaxError
              | Some n \<Rightarrow> Inr (0 < n))
      else Inr (wordSearch None skill jobText))"

text \<open>\<open>getSkillContext\<close>: the first sentence that names the skill, in lower case.\<close>

definition getSkillContext :: "string \<Rightarrow> string \<Rightarrow> string" where
  "getSkillContext skill jobText =
     (case find (\<lambda>sentence. str_includes (toLowerCase sentence) (toLowerCase skill))
             (splitRuns (\<lambda>c. c = CHR ''.'' \<or> c = CHR ''!'' \<or> c = CHR ''?'') False jobText) of
        None \<Rightarrow> []
      | Some sentence \<Rightarrow> toLowerCase sentence)"

definition calculateSkillImportance :: "regexEngine \<Rightarrow> string \<Rightarrow> string \<Rightarrow> error + int" where
  "calculateSkillImportance engine skill jobText =
     (let skillContext = getSkillContext skill jobText;
          base = 5
            + (if str_includes skillContext ''required'' \<or> str_includes skillContext ''must''
               then 5 else 0)
            + (if str_includes skillContext ''preferred'' \<or> str_includes skillContext ''desired''
               then 3 else 0)
            + (if str_includes skillContext ''years'' then 2 else 0)
      in case matchCount engine skill (toLowerCase jobText) of
           Inl e \<Rightarrow> Inl e
         | Inr count \<Rightarrow> Inr (min (base + min (int count - 1) 3) 15))"

text \<open>\<open>/(\d+)\+?\s*years?/i\<close>.\<close>

definition yearsPattern :: matcher where
  "yearsPattern =
     mSeq (mGroup (mSeq (mChar isDigit) (mStar (mChar isDigit))))
       (mSeq (mRepeat 0 1 (mChar (\<lambda>c. c = CHR ''+'')))
          (mSeq spaces (mSeq (mLiteral ''year'') (mRepeat 0 1 (mLiteral ''s'')))))"

definition extractYearsForSkill :: "string \<Rightarrow> string \<Rightarrow> jsnum option" where
  "extractYearsForSkill skill jobText =
     (case searchFirst yearsPattern (getSkillContext skill jobText) of
        None \<Rightarrow> None
      | Some groups \<Rightarrow> Some (parseInt (groups ! 0)))"

datatype proficiency = Beginner | Intermediate | Advanced | Expert

definition determineProficiencyLevel :: "string \<Rightarrow> string \<Rightarrow> proficiency option" where
  "determineProficiencyLevel skill jobText =
     (let context = getSkillContext skill jobText in
      if str_includes context ''expert'' \<or> str_includes context ''advanced'' then Some Expert
      else if str_includes context ''senior'' \<or> str_includes context ''lead'' then Some Advanced
      else if str_includes context ''intermediate'' \<or> str_includes context ''mid'' then Some Intermediate
      else if str_includes context ''junior'' \<or> str_includes context ''entry'' then Some Beginner
      else None)"

record JobSkill =
  js_skill :: string
  js_importance :: int
  yearsRequired :: "jsnum option"
  proficiencyLevel :: "proficiency option"

definition technicalSkills :: "string list" where
  "technicalSkills =
     [''python'', ''javascript'', ''java'', ''c++'', ''react'', ''angular'', ''vue'',
      ''node.js'', ''django'', ''flask'', ''spring'', ''sql'', ''mongodb'', ''postgresql'',
      ''aws'', ''azure'', ''google cloud'', ''docker'', ''kubernetes'', ''git'',
      ''jenkins'', ''terraform'', ''ansible'', ''redis'', ''elasticsearch'']"

text \<open>
  The loop \<open>technicalSkills.forEach\<close>: for each skill in turn the regular expression is
  built and matched, and a skill that is found is added behind the ones found so far.
  An exception ends the loop and is the outcome of it.
\<close>

fun skillsLoop ::
    "regexEngine \<Rightarrow> regexEngine \<Rightarrow> string list \<Rightarrow> string \<Rightarrow> JobSkill list \<Rightarrow> error + JobSkill list" where
  "skillsLoop engineI engine [] jobText found = Inr found"
| "skillsLoop engineI engine (skill # rest) jobText found =
     (case matchesSkill engineI skill jobText of
        Inl e \<Rightarrow> Inl e
      | Inr False \<Rightarrow> skillsLoop engineI engine rest jobText found
      | Inr True \<Rightarrow>
          (case calculateSkillImportance engine skill jobText of
             Inl e \<Rightarrow> Inl e
           | Inr n \<Rightarrow>
               skillsLoop engineI engine rest jobText
                 (found @ [\<lparr>js_skill = skill, js_importance = n,
                             yearsRequired = extractYearsForSkill skill jobText,
                             proficiencyLevel = determineProficiencyLevel skill jobText\<rparr>])))"

text \<open>\<open>sort((a, b) => b.importance - a.importance)\<close>: a stable sort, the larger importance first.\<close>

fun insertSkill :: "JobSkill \<Rightarrow> JobSkill list \<Rightarrow> JobSkill list" where
  "insertSkill a [] = [a]"
| "insertSkill a (b # bs) =
     (if js_importance a < js_importance b then b # insertSkill a bs else a # b # bs)"

definition extractSkills :: "regexEngine \<Rightarrow> regexEngine \<Rightarrow> string \<Rightarrow> error + JobSkill list" where
  "extractSkills engineI engine jobText =
     (case skillsLoop engineI engine technicalSkills jobText [] of
        Inl e \<Rightarrow> Inl e
      | Inr found \<Rightarrow> Inr (foldr insertSkill found []))"

subsection \<open>analyzeJobPosting\<close>

text \<open>
  The result of \<open>analyzeJobPosting\<close> is an object whose fields are computed from the
  cleaned text one after the other, in the order \<open>jobTitle\<close>, \<open>company\<close>, \<open>location\<close>,
  \<open>requirements\<close>, \<open>skills\<close>, \<open>experience\<close>, \<open>keywords\<close>, \<open>salary\<close>, \<open>jobType\<close>,
  \<open>benefits\<close>, \<open>description\<close>, \<open>analysisScore\<close>; an exception raised for one field is
  the outcome of the whole call. The record has the fields \<open>skills\<close>, \<open>salary\<close> and
  \<open>description\<close>. The four fields before \<open>skills\<close> are computed with regular
  expression literals, with \<open>new RegExp\<close> on the fixed list of job titles, which are
  letters and spaces, and with string operations; they give a value for every text, so
  that \<open>extractSkills\<close> is reached for every text.
\<close>

record JobAnalysisResult =
  skills :: "JobSkill list"
  salary :: "SalaryRange option"
  description :: string

definition analyzeJobPosting :: "regexEngine \<Rightarrow> regexEngine \<Rightarrow> string \<Rightarrow> error + JobAnalysisResult" where
  "analyzeJobPosting engineI engine jobText =
     (let cleanText = cleanJobText jobText in
      case extractSkills engineI engine cleanText of
        Inl e \<Rightarrow> Inl e
      | Inr found \<Rightarrow>
          Inr \<lparr>skills = found, salary = extractSalaryRange cleanText, description = cleanText\<rparr>)"

section \<open>The specification's formulas and sample inputs\<close>

text \<open>
  The overall score as the specification words it: the weighted sum of the five
  sub-scores, with the weights 0.40, 0.25, 0.15, 0.10 and 0.10, rounded to the nearest
  integer.
\<close>

definition specOverallScore :: "jsnum \<Rightarrow> int \<Rightarrow> int \<Rightarrow> int \<Rightarrow> int \<Rightarrow> jsnum" where
  "specOverallScore k c s f l =
     (case k of
        NaN \<Rightarrow> NaN
      | Num kq \<Rightarrow>
          Num (of_int \<lfloor>0.40 * kq + 0.25 * of_int c + 0.15 * of_int s + 0.10 * of_int f +
                          0.10 * of_int l + 1 / 2\<rfloor>))"

text \<open>The bands of the length score as the specification lists them.\<close>

definition specLengthScore :: "nat \<Rightarrow> int" where
  "specLengthScore wordCount =
     (if 400 \<le> wordCount \<and> wordCount \<le> 800 then 100
      else if 300 \<le> wordCount \<and> wordCount \<le> 1000 then 85
      else if 200 \<le> wordCount \<and> wordCount \<le> 1200 then 70
      else if wordCount < 200 then 40
      else 50)"

text \<open>A short resume with two of three job keywords in it.\<close>

definition sampleResume :: string where
  "sampleResume = ''I know javascript and sql. Experience with python''"

text \<open>A resume of 850 words, and an engine that rejects every pattern it is asked about.\<close>

definition resume850 :: string where
  "resume850 = concat (replicate 849 ''a '') @ ''a''"

definition noEngine :: regexEngine where
  "noEngine pat text = None"

text \<open>
  The number of job keywords matched in a resume, with the test that the tailoring engine
  itself applies to a keyword (\<open>inResume\<close>).
\<close>

definition matchedKeywordCount :: "string \<Rightarrow> string \<Rightarrow> nat" where
  "matchedKeywordCount jobText resume =
     length (filter inResume
       (analyzeKeywordMatches (extractKeywords jobText) (extractKeywords resume) resume))"

text \<open>Two tailoring requests.\<close>

definition postgresRequest :: TailoringRequest where
  "postgresRequest =
     \<lparr>resumeText = ''postgresql'', jobDescription = ''postgres sql'',
      targetRole = ''developer'', company = None\<rparr>"

definition capitalRequest :: TailoringRequest where
  "capitalRequest =
     \<lparr>resumeText = ''Python'', jobDescription = ''python'',
      targetRole = ''developer'', company = None\<rparr>"

text \<open>
  The characters of a cleaned text other than the space: the lower-case word characters,
  the dot and the hyphen. A token is a non-empty string of them.
\<close>

definition tokenChar :: "char \<Rightarrow> bool" where
  "tokenChar c \<longleftrightarrow> (isWordChar c \<or> c = CHR ''.'' \<or> c = CHR ''-'') \<and> toLowerChar c = c"

definition isToken :: "string \<Rightarrow> bool" where
  "isToken w \<longleftrightarrow> w \<noteq> [] \<and> list_all tokenChar w"

text \<open>A suggestion and the sections it is generated from, for a resume of one word.\<close>

definition reducePython :: TailordSuggestion where
  "reducePython =
     \<lparr>s_section = ''overall'', original = ''python'',
      suggested = ''Reduce repetition of '' @ quoted ''python'',
      reason = ''Avoid keyword stuffing which can hurt ATS scoring'', impact = - 5\<rparr>"

text \<open>A number in the closed interval from 0 to 100, and the signs of a number that may be \<open>NaN\<close>.\<close>

definition inRange :: "jsnum \<Rightarrow> bool" where
  "inRange v = (case v of NaN \<Rightarrow> False | Num q \<Rightarrow> 0 \<le> q \<and> q \<le> 100)"

definition positiveOrNaN :: "jsnum \<Rightarrow> bool" where
  "positiveOrNaN v = (case v of NaN \<Rightarrow> True | Num q \<Rightarrow> 0 < q)"

definition nonnegOrNaN :: "jsnum \<Rightarrow> bool" where
  "nonnegOrNaN v = (case v of NaN \<Rightarrow> True | Num q \<Rightarrow> 0 \<le> q)"

section \<open>Characters and strings: facts\<close>

lemma toLowerChar_idem: "toLowerChar (toLowerChar c) = toLowerChar c"
  unfolding toLowerChar_def by auto

lemma tokenChar_not_space: "tokenChar c \<Longrightarrow> \<not> isSpace c"
  by (auto simp: tokenChar_def isWordChar_def isDigit_def isSpace_def)

lemma tokenChar_keywordChar: "tokenChar c \<Longrightarrow> keywordChar c"
  by (auto simp: tokenChar_def keywordChar_def)

lemma tokenChar_lower: "tokenChar c \<Longrightarrow> toLowerChar c = c"
  by (simp add: tokenChar_def)

lemma tokenChar_not_dollar: "tokenChar c \<Longrightarrow> c \<noteq> CHR ''$''"
  by (auto simp: tokenChar_def isWordChar_def isDigit_def toLowerChar_def)

lemma space_facts: "isSpace CHR '' ''" "keywordChar CHR '' ''" "toLowerChar CHR '' '' = CHR '' ''"
  by (simp_all add: isSpace_def keywordChar_def toLowerChar_def)

lemma tokenChar_not_blank: "tokenChar c \<Longrightarrow> c \<noteq> CHR '' ''"
  using tokenChar_not_space space_facts(1) by blast

lemma cleaned_char:
  "keywordChar (toLowerChar x) \<Longrightarrow> \<not> isSpace (toLowerChar x) \<Longrightarrow> tokenChar (toLowerChar x)"
  by (auto simp: keywordChar_def tokenChar_def toLowerChar_idem)

lemma startsWith_iff: "startsWith s p \<longleftrightarrow> (\<exists>b. s = p @ b)"
  by (induction s p rule: startsWith.induct) auto

lemma str_includes_iff: "str_includes s p \<longleftrightarrow> (\<exists>a b. s = a @ p @ b)"
proof (induction s)
  case Nil
  then show ?case by auto
next
  case (Cons c cs)
  show ?case
  proof
    assume "str_includes (c # cs) p"
    then consider "startsWith (c # cs) p" | "str_includes cs p" by auto
    then show "\<exists>a b. c # cs = a @ p @ b"
    proof cases
      case 1
      then obtain b where "c # cs = p @ b" by (auto simp: startsWith_iff)
      then have "c # cs = [] @ p @ b" by simp
      then show ?thesis by blast
    next
      case 2
      with Cons.IH obtain a b where "cs = a @ p @ b" by blast
      then have "c # cs = (c # a) @ p @ b" by simp
      then show ?thesis by blast
    qed
  next
    assume "\<exists>a b. c # cs = a @ p @ b"
    then obtain a b where ab: "c # cs = a @ p @ b" by blast
    show "str_includes (c # cs) p"
    proof (cases a)
      case Nil
      with ab have "startsWith (c # cs) p" by (auto simp: startsWith_iff)
      then show ?thesis by simp
    next
      case (Cons a0 as)
      with ab have "cs = as @ p @ b" by simp
      with Cons.IH have "str_includes cs p" by blast
      then show ?thesis by simp
    qed
  qed
qed

lemma str_split_nonempty: "str_split sep s \<noteq> []"
  by (induction s) (auto split: list.splits)

lemma str_split_append:
  "str_split sep (x @ sep # y) = str_split sep x @ str_split sep y"
proof (induction x)
  case Nil
  then show ?case by simp
next
  case (Cons c cs)
  obtain w ws where w: "str_split sep cs = w # ws"
    using str_split_nonempty[of sep cs] by (cases "str_split sep cs") auto
  with Cons show ?case by simp
qed

lemma str_split_no_sep: "sep \<notin> set w \<Longrightarrow> str_split sep w = [w]"
  by (induction w) auto

lemma str_split_pieces: "w \<in> set (str_split sep s) \<Longrightarrow> sep \<notin> set w \<and> set w \<subseteq> set s"
proof (induction s arbitrary: w)
  case Nil
  then show ?case by simp
next
  case (Cons c cs)
  obtain v vs where v: "str_split sep cs = v # vs"
    using str_split_nonempty[of sep cs] by (cases "str_split sep cs") auto
  show ?case
  proof (cases "c = sep")
    case True
    with Cons.prems have "w = [] \<or> w \<in> set (str_split sep cs)" by auto
    with Cons.IH show ?thesis by auto
  next
    case False
    with Cons.prems v have "w = c # v \<or> w \<in> set vs" by auto
    moreover have "sep \<notin> set v \<and> set v \<subseteq> set cs" using Cons.IH[of v] v by simp
    moreover have "w \<in> set vs \<Longrightarrow> sep \<notin> set w \<and> set w \<subseteq> set cs" using Cons.IH[of w] v by simp
    ultimately show ?thesis using False by auto
  qed
qed

lemma str_join_Cons:
  "str_join sep (x # xs) = (if xs = [] then x else x @ sep @ str_join sep xs)"
  by (cases xs) simp_all

lemma str_split_join:
  "ws \<noteq> [] \<Longrightarrow> str_split sep (str_join [sep] ws) = concat (map (str_split sep) ws)"
proof (induction ws)
  case Nil
  then show ?case by simp
next
  case (Cons x xs)
  then show ?case by (cases "xs = []") (simp_all add: str_join_Cons str_split_append)
qed

lemma str_join_split: "str_join [sep] (str_split sep s) = s"
proof (induction s)
  case Nil
  then show ?case by simp
next
  case (Cons c cs)
  obtain v vs where v: "str_split sep cs = v # vs"
    using str_split_nonempty[of sep cs] by (cases "str_split sep cs") auto
  show ?case
  proof (cases "c = sep")
    case True
    with Cons v show ?thesis by simp
  next
    case False
    with Cons v show ?thesis by (cases vs) auto
  qed
qed

lemma str_join_includes: "k \<in> set ks \<Longrightarrow> str_includes (str_join sep ks) k"
proof (induction ks)
  case Nil
  then show ?case by simp
next
  case (Cons x xs)
  show ?case
  proof (cases "k = x")
    case True
    then have "str_join sep (x # xs) = [] @ k @ (if xs = [] then [] else sep @ str_join sep xs)"
      by (simp add: str_join_Cons)
    then show ?thesis unfolding str_includes_iff by blast
  next
    case False
    with Cons have kxs: "k \<in> set xs" and "str_includes (str_join sep xs) k" by auto
    then obtain a b where "str_join sep xs = a @ k @ b" unfolding str_includes_iff by blast
    moreover from kxs have "xs \<noteq> []" by auto
    ultimately have "str_join sep (x # xs) = (x @ sep @ a) @ k @ b" by (simp add: str_join_Cons)
    then show ?thesis unfolding str_includes_iff by blast
  qed
qed

lemma set_str_join: "set (str_join sep ks) \<subseteq> \<Union> (set ` set ks) \<union> set sep"
  by (induction ks) (auto simp: str_join_Cons split: if_splits)

lemma set_dedup_aux:
  "set (fold (\<lambda>x acc. if x \<in> set acc then acc else acc @ [x]) xs acc) = set xs \<union> set acc"
  by (induction xs arbitrary: acc) auto

lemma set_dedup: "set (dedup xs) = set xs"
  by (simp add: dedup_def set_dedup_aux)

lemma str_trim_subset: "set (str_trim s) \<subseteq> set s"
proof -
  have "set (dropWhile isSpace (rev (dropWhile isSpace s))) \<subseteq> set (rev (dropWhile isSpace s))"
    by (rule set_dropWhileD[THEN subsetI])
  also have "\<dots> \<subseteq> set s"
    using set_dropWhileD[of _ isSpace s] by auto
  finally show ?thesis by (simp add: str_trim_def)
qed

lemma collapseRuns_chars:
  "c \<in> set (collapseRuns b s) \<Longrightarrow> c = CHR '' '' \<or> (c \<in> set s \<and> \<not> isSpace c)"
  by (induction s arbitrary: b) (auto split: if_splits)

lemma cleanText_chars: "c \<in> set (cleanText t) \<Longrightarrow> c = CHR '' '' \<or> tokenChar c"
proof -
  assume "c \<in> set (cleanText t)"
  then have "c \<in> set (collapseWhitespace (map (\<lambda>c. if keywordChar c then c else CHR '' '') (toLowerCase t)))"
    using str_trim_subset unfolding cleanText_def by blast
  then have "c = CHR '' '' \<or>
      (c \<in> set (map (\<lambda>c. if keywordChar c then c else CHR '' '') (toLowerCase t)) \<and> \<not> isSpace c)"
    unfolding collapseWhitespace_def by (rule collapseRuns_chars)
  then show ?thesis
    by (auto simp: toLowerCase_def cleaned_char space_facts split: if_splits)
qed

lemma collapse_token:
  "list_all tokenChar w \<Longrightarrow> w \<noteq> [] \<Longrightarrow> collapseRuns b (w @ r) = w @ collapseRuns False r"
proof (induction w arbitrary: b)
  case Nil
  then show ?case by simp
next
  case (Cons c cs)
  then have c: "\<not> isSpace c" by (simp add: tokenChar_not_space)
  show ?case
  proof (cases "cs = []")
    case True
    with c show ?thesis by simp
  next
    case False
    with Cons c show ?thesis by simp
  qed
qed

lemma collapse_tokens:
  "ws \<noteq> [] \<Longrightarrow> list_all isToken ws \<Longrightarrow> collapseRuns b (str_join '' '' ws) = str_join '' '' ws"
proof (induction ws arbitrary: b)
  case Nil
  then show ?case by simp
next
  case (Cons w ws)
  then have w: "list_all tokenChar w" "w \<noteq> []" by (simp_all add: isToken_def)
  show ?case
  proof (cases "ws = []")
    case True
    with collapse_token[OF w, of b "[]"] show ?thesis by simp
  next
    case False
    with Cons have IH: "collapseRuns True (str_join '' '' ws) = str_join '' '' ws" by simp
    from False have "str_join '' '' (w # ws) = w @ CHR '' '' # str_join '' '' ws"
      by (simp add: str_join_Cons)
    with collapse_token[OF w, of b "CHR '' '' # str_join '' '' ws"] IH show ?thesis
      by (simp add: space_facts)
  qed
qed

lemma tokens_chars:
  "list_all isToken ws \<Longrightarrow> c \<in> set (str_join '' '' ws) \<Longrightarrow> c = CHR '' '' \<or> tokenChar c"
  using set_str_join[of "'' ''" ws] by (auto simp: isToken_def list_all_iff)

lemma tokens_lower: "list_all isToken ws \<Longrightarrow> toLowerCase (str_join '' '' ws) = str_join '' '' ws"
  unfolding toLowerCase_def
  by (rule map_idI) (auto dest: tokens_chars simp: space_facts tokenChar_lower)

lemma tokens_replace:
  "list_all isToken ws \<Longrightarrow>
     map (\<lambda>c. if keywordChar c then c else CHR '' '') (str_join '' '' ws) = str_join '' '' ws"
  by (rule map_idI) (auto dest: tokens_chars simp: space_facts tokenChar_keywordChar)

lemma str_trim_id:
  assumes "s \<noteq> []" and "\<not> isSpace (hd s)" and "\<not> isSpace (last s)"
  shows "str_trim s = s"
proof -
  from assms(2) have 1: "dropWhile isSpace s = s" by (simp add: dropWhile_eq_self_iff)
  from assms(1,3) have 2: "dropWhile isSpace (rev s) = rev s"
    by (simp add: dropWhile_eq_self_iff hd_rev)
  show ?thesis by (simp add: str_trim_def 1 2)
qed

lemma tokens_hd_last:
  "ws \<noteq> [] \<Longrightarrow> list_all isToken ws \<Longrightarrow>
     str_join '' '' ws \<noteq> [] \<and> tokenChar (hd (str_join '' '' ws)) \<and> tokenChar (last (str_join '' '' ws))"
proof (induction ws)
  case Nil
  then show ?case by simp
next
  case (Cons w ws)
  then have w: "list_all tokenChar w" "w \<noteq> []" by (simp_all add: isToken_def)
  then have hw: "tokenChar (hd w)" "tokenChar (last w)" by (simp_all add: list_all_iff)
  show ?case
  proof (cases "ws = []")
    case True
    with w hw show ?thesis by simp
  next
    case False
    with Cons have "str_join '' '' ws \<noteq> []" "tokenChar (last (str_join '' '' ws))" by simp_all
    with False w hw show ?thesis by (simp add: str_join_Cons)
  qed
qed

lemma tokens_trim:
  "ws \<noteq> [] \<Longrightarrow> list_all isToken ws \<Longrightarrow> str_trim (str_join '' '' ws) = str_join '' '' ws"
  using tokens_hd_last[of ws] by (simp add: str_trim_id tokenChar_not_space)

lemma cleanText_tokens:
  "ws \<noteq> [] \<Longrightarrow> list_all isToken ws \<Longrightarrow> cleanText (str_join '' '' ws) = str_join '' '' ws"
  by (simp add: cleanText_def tokens_lower tokens_replace collapseWhitespace_def collapse_tokens tokens_trim)


section \<open>The ATS scorer: results\<close>

lemma not_isl_Inr: "\<not> isl x \<Longrightarrow> \<exists>r. x = Inr r"
  by (cases x) simp_all

lemma calculateATSScore_Inr:
  "calculateATSScore engine t ks = Inr r \<Longrightarrow>
     calculateScoreBreakdown engine t ks = Inr (breakdown r) \<and>
     score r = calculateOverallScore (breakdown r) \<and>
     passesATS r = jsGreaterEq (calculateOverallScore (breakdown r)) (Num 70)"
  by (auto simp: calculateATSScore_def Let_def split: sum.splits)

lemma calculateScoreBreakdown_Inr:
  "calculateScoreBreakdown engine t ks = Inr b \<Longrightarrow>
     calculateKeywordMatchScore engine t ks = Inr (keywordMatch b) \<and>
     formatScore b = calculateFormatScore t \<and> contentScore b = calculateContentScore t \<and>
     lengthScore b = calculateLengthScore t \<and> structureScore b = calculateStructureScore t"
  by (auto simp: calculateScoreBreakdown_def Let_def split: sum.splits)

lemma calculateOverallScore_spec:
  "calculateOverallScore b =
     specOverallScore (keywordMatch b) (contentScore b) (structureScore b) (formatScore b) (lengthScore b)"
  by (cases "keywordMatch b")
     (simp_all add: calculateOverallScore_def specOverallScore_def weights_def ofInt_def algebra_simps)

lemma calculateKeywordMatchScore_empty: "calculateKeywordMatchScore engine t [] = Inr (Num 100)"
  by (simp add: calculateKeywordMatchScore_def)

lemma calculateATSScore_empty_returns: "\<exists>r. calculateATSScore engine t [] = Inr r"
  by (simp add: calculateATSScore_def calculateScoreBreakdown_def calculateKeywordMatchScore_empty Let_def)

lemma sample_returns: "\<not> isl (calculateATSScore noEngine ''hello world'' [''javascript''])"
  by code_simp

lemma jsAdd_NaN [simp]: "jsAdd NaN x = NaN" "jsAdd x NaN = NaN"
  by (cases x; simp)+

lemma jsMin_NaN [simp]: "jsMin NaN x = NaN"
  by (cases x; simp)

lemma matchCount_simple:
  "\<not> list_ex (\<lambda>c. c \<in> set otherSyntaxChars) pat \<Longrightarrow> pat \<noteq> [] \<Longrightarrow>
     matchCount engine pat text = Inr (countFrom 0 pat text)"
  by (simp add: matchCount_def)

lemma constructor_lower: "toLowerCase ''constructor'' = ''constructor''"
  by code_simp

lemma constructor_category: "categorizeKeyword ''constructor'' = Soft"
  by code_simp

lemma constructor_prop: "getProp (KEYWORD_WEIGHTS Soft) ''constructor'' = VObject"
  by code_simp

lemma constructor_simple: "\<not> list_ex (\<lambda>c. c \<in> set otherSyntaxChars) ''constructor''"
  by code_simp

lemma constructor_importance:
  "calculateKeywordImportance engine ''constructor'' Soft context = Inr NaN"
  unfolding calculateKeywordImportance_def Let_def constructor_lower constructor_prop
    matchCount_simple[OF constructor_simple, simplified]
  by simp

lemma constructor_keywordMatch:
  "calculateKeywordMatchScore engine t [''constructor''] = Inr NaN"
  by (simp add: calculateKeywordMatchScore_def analyzeKeywordImportance_def constructor_category
        constructor_importance sortByImportance_def Let_def)

lemma constructor_result:
  "\<exists>r. calculateATSScore engine t [''constructor''] = Inr r \<and> score r = NaN"
  by (simp add: calculateATSScore_def calculateScoreBreakdown_def constructor_keywordMatch
        calculateOverallScore_def Let_def)

lemma specOverallScore_NaN: "specOverallScore k c s f l = NaN \<longleftrightarrow> k = NaN"
  by (cases k) (simp_all add: specOverallScore_def)

lemma jsStrictEq_refl: "jsStrictEq v v \<longleftrightarrow> v \<noteq> NaN"
  by (cases v) simp_all

lemma sample_result:
  "case calculateATSScore noEngine sampleResume [''javascript'', ''python'', ''docker''] of
     Inl e \<Rightarrow> False
   | Inr r \<Rightarrow> keywordMatch (breakdown r) = Num 71 \<and> contentScore (breakdown r) = 60 \<and>
       structureScore (breakdown r) = 20 \<and> formatScore (breakdown r) = 100 \<and>
       lengthScore (breakdown r) = 40"
  by code_simp

text \<open>
  C1 says that for every resume text and every list of job keywords the overall score
  equals the rounded weighted sum of the five sub-scores of its own breakdown, with the
  weights 0.40 (keyword match), 0.25 (content), 0.15 (structure), 0.10 (format) and 0.10
  (length), which add up to 1. Whenever \<open>calculateATSScore\<close> returns, the weights of the
  program add up to 1, and the score equals the rounded weighted sum, by the equality of
  the program's own numbers, exactly when the keyword match of the breakdown is a number.
  The program breaks the claim on the list \<open>["constructor"]\<close>: for every resume text it
  returns a score that is \<open>NaN\<close>, which equals no number and not itself.
\<close>

theorem overall_score_weighted_round:
  "(calculateATSScore engine t ks = Inr r \<longrightarrow>
      (jsStrictEq (score r)
         (specOverallScore (keywordMatch (breakdown r)) (contentScore (breakdown r))
            (structureScore (breakdown r)) (formatScore (breakdown r)) (lengthScore (breakdown r)))
       \<longleftrightarrow> keywordMatch (breakdown r) \<noteq> NaN)
      \<and> w_keywordMatch weights + w_contentScore weights + w_structureScore weights
          + w_formatScore weights + w_lengthScore weights = 1)
   \<and> (\<exists>r'. calculateATSScore engine t [''constructor''] = Inr r' \<and>
         \<not> jsStrictEq (score r')
             (specOverallScore (keywordMatch (breakdown r')) (contentScore (breakdown r'))
                (structureScore (breakdown r')) (formatScore (breakdown r')) (lengthScore (breakdown r'))))"
proof (intro conjI impI)
  assume r: "calculateATSScore engine t ks = Inr r"
  from calculateATSScore_Inr[OF r] calculateOverallScore_spec[of "breakdown r"]
  show "jsStrictEq (score r)
         (specOverallScore (keywordMatch (breakdown r)) (contentScore (breakdown r))
            (structureScore (breakdown r)) (formatScore (breakdown r)) (lengthScore (breakdown r)))
       \<longleftrightarrow> keywordMatch (breakdown r) \<noteq> NaN"
    by (simp add: jsStrictEq_refl specOverallScore_NaN)
next
  show "w_keywordMatch weights + w_contentScore weights + w_structureScore weights
          + w_formatScore weights + w_lengthScore weights = 1"
    by (simp add: weights_def)
next
  from constructor_result[of engine t] obtain r' where
    "calculateATSScore engine t [''constructor''] = Inr r'" "score r' = NaN" by blast
  then show "\<exists>r'. calculateATSScore engine t [''constructor''] = Inr r' \<and>
         \<not> jsStrictEq (score r')
             (specOverallScore (keywordMatch (breakdown r')) (contentScore (breakdown r'))
                (structureScore (breakdown r')) (formatScore (breakdown r')) (lengthScore (breakdown r')))"
    by auto
qed

theorem overall_score_weighted_round_witness:
  "\<exists>r. calculateATSScore noEngine sampleResume [''javascript'', ''python'', ''docker''] = Inr r \<and>
       keywordMatch (breakdown r) = Num 71 \<and> score r = Num 60"
proof -
  obtain r where r: "calculateATSScore noEngine sampleResume [''javascript'', ''python'', ''docker''] = Inr r"
    and b: "keywordMatch (breakdown r) = Num 71" "contentScore (breakdown r) = 60"
      "structureScore (breakdown r) = 20" "formatScore (breakdown r) = 100"
      "lengthScore (breakdown r) = 40"
    using sample_result by (auto split: sum.splits)
  from overall_score_weighted_round[of noEngine sampleResume "[''javascript'', ''python'', ''docker'']" r] r b
  have "jsStrictEq (score r) (specOverallScore (Num 71) 60 20 100 40)" by simp
  moreover have "specOverallScore (Num 71) 60 20 100 40 = Num 60"
    by code_simp
  ultimately have "score r = Num 60" by (cases "score r") simp_all
  with r b show ?thesis by blast
qed

text \<open>
  C3. With an empty list of job keywords \<open>calculateATSScore\<close> returns, for every resume
  text, and the \<open>keywordMatch\<close> of its breakdown is exactly 100.
\<close>

theorem empty_keywords_keywordMatch_100:
  "\<exists>r. calculateATSScore engine t [] = Inr r \<and> keywordMatch (breakdown r) = Num 100"
  by (simp add: calculateATSScore_def calculateScoreBreakdown_def calculateKeywordMatchScore_empty Let_def)

text \<open>
  C4. Whenever \<open>calculateATSScore\<close> returns, \<open>passesATS\<close> is true exactly when the overall
  score of the same result is a number that is at least 70.
\<close>

theorem passesATS_iff_score_ge_70:
  "calculateATSScore engine t ks = Inr r \<Longrightarrow> passesATS r \<longleftrightarrow> (\<exists>q. score r = Num q \<and> 70 \<le> q)"
  using calculateATSScore_Inr[of engine t ks r]
  by (cases "calculateOverallScore (breakdown r)") auto

theorem passesATS_iff_score_ge_70_witness:
  "\<exists>r. calculateATSScore noEngine ''hello world'' [''javascript''] = Inr r \<and>
       (passesATS r \<longleftrightarrow> (\<exists>q. score r = Num q \<and> 70 \<le> q))"
proof -
  obtain r where r: "calculateATSScore noEngine ''hello world'' [''javascript''] = Inr r"
    using not_isl_Inr[OF sample_returns] by blast
  from passesATS_iff_score_ge_70[OF r] r show ?thesis by blast
qed

text \<open>
  C5. Whenever \<open>calculateATSScore\<close> returns, the \<open>lengthScore\<close> of its breakdown is given by
  the number of pieces of the resume text split at white space: 400 to 800 gives 100,
  otherwise 300 to 1000 gives 85, otherwise 200 to 1200 gives 70, under 200 gives 40, any
  other count gives 50. A resume of 850 words has the length score 85.
\<close>

theorem lengthScore_bands:
  "calculateATSScore engine t ks = Inr r \<Longrightarrow>
     lengthScore (breakdown r) = specLengthScore (length (splitWhitespace t)) \<and>
     (length (splitWhitespace t) = 850 \<longrightarrow> lengthScore (breakdown r) = 85)"
  using calculateATSScore_Inr[of engine t ks r] calculateScoreBreakdown_Inr[of engine t ks "breakdown r"]
  by (auto simp: calculateLengthScore_def specLengthScore_def Let_def)

lemma splitRuns_word_space:
  "\<not> P c \<Longrightarrow> P s \<Longrightarrow> length (splitRuns P b (concat (replicate n [c, s]) @ [c])) = Suc n"
  by (induction n arbitrary: b) (auto split: list.splits)

lemma resume850_words: "length (splitWhitespace resume850) = 850"
  using splitRuns_word_space[of isSpace "CHR ''a''" "CHR '' ''" False 849]
  by (simp add: resume850_def splitWhitespace_def isSpace_def)

theorem lengthScore_bands_witness:
  "\<exists>r. calculateATSScore noEngine resume850 [] = Inr r \<and>
       length (splitWhitespace resume850) = 850 \<and> lengthScore (breakdown r) = 85"
proof -
  obtain r where r: "calculateATSScore noEngine resume850 [] = Inr r"
    using calculateATSScore_empty_returns by blast
  from lengthScore_bands[OF r] resume850_words show ?thesis using r by simp
qed

subsection \<open>A keyword that names a property of every object\<close>

text \<open>
  C2 says that the overall score and the five sub-scores lie between 0 and 100 for every
  resume text and every list of job keywords. The program breaks this on the list
  \<open>["constructor"]\<close>: the soft-skill table has no such key, the lookup finds the
  constructor of every object instead, and the importance of the keyword is \<open>NaN\<close>. For
  every resume text the scorer returns with the keyword match \<open>NaN\<close> and the overall
  score \<open>NaN\<close>, which lie in no interval.
\<close>

theorem constructor_keyword_scores_NaN:
  "\<exists>r. calculateATSScore engine t [''constructor''] = Inr r \<and>
       keywordMatch (breakdown r) = NaN \<and> score r = NaN"
  by (simp add: calculateATSScore_def calculateScoreBreakdown_def constructor_keywordMatch
        calculateOverallScore_def Let_def)

subsection \<open>The range of the scores\<close>

text \<open>
  Whenever the scorer returns, the four sub-scores computed from the resume alone lie
  between 0 and 100, and the keyword match and the overall score lie between 0 and 100
  or are \<open>NaN\<close>.
\<close>

lemma fold_deduct: "(\<And>x s. f x s \<le> s) \<Longrightarrow> fold f xs s \<le> (s::int)"
proof (induction xs arbitrary: s)
  case Nil
  then show ?case by simp
next
  case (Cons x xs)
  have "fold f xs (f x s) \<le> f x s" by (rule Cons.IH) (rule Cons.prems)
  also have "f x s \<le> s" by (rule Cons.prems)
  finally show ?case by simp
qed

lemma formatScore_range: "0 \<le> calculateFormatScore t \<and> calculateFormatScore t \<le> 100"
  unfolding calculateFormatScore_def
  using fold_deduct[of _ "identifyFormatIssues t" 100] by (simp add: max_def)


lemma contentScore_range: "0 \<le> calculateContentScore t \<and> calculateContentScore t \<le> 100"
  unfolding calculateContentScore_def
  using fold_deduct[of _ "identifyContentIssues t" 100] by (simp add: max_def)

lemma lengthScore_range: "0 \<le> calculateLengthScore t \<and> calculateLengthScore t \<le> 100"
  by (simp add: calculateLengthScore_def Let_def)

lemma structureScore_range: "0 \<le> calculateStructureScore t \<and> calculateStructureScore t \<le> 100"
  by (simp add: calculateStructureScore_def Let_def min_def)

text \<open>Every weight of the tables is positive, and so is every importance that is a number.\<close>

lemma weights_positive: "(k, w) \<in> set (KEYWORD_WEIGHTS cat) \<Longrightarrow> 0 < w"
  by (cases cat) (auto simp: KEYWORD_WEIGHTS_def)

lemma getProp_weight: "getProp (KEYWORD_WEIGHTS cat) k = VNum w \<Longrightarrow> 0 < w"
  by (auto simp: getProp_def split: option.splits if_splits dest: map_of_SomeD weights_positive)

lemma fold_max_ge: "b \<le> fold (\<lambda>(k, w) (b::rat). if P k then max b (g w) else b) xs b"
proof (induction xs arbitrary: b)
  case Nil
  then show ?case by simp
next
  case (Cons x xs)
  obtain k w where x: "x = (k, w)" by (cases x)
  have "b \<le> (if P k then max b (g w) else b)" by simp
  also have "\<dots> \<le> fold (\<lambda>(k, w) b. if P k then max b (g w) else b) xs (if P k then max b (g w) else b)"
    by (rule Cons.IH)
  finally show ?case by (simp add: x)
qed

lemma partialMatchScore_ge: "5 \<le> partialMatchScore tbl kw"
  unfolding partialMatchScore_def by (rule fold_max_ge)

lemma positiveOrNaN_simps [simp]:
  "positiveOrNaN NaN" "positiveOrNaN (Num q) = (0 < q)"
  by (simp_all add: positiveOrNaN_def)

lemma positiveOrNaN_add: "positiveOrNaN a \<Longrightarrow> 0 \<le> q \<Longrightarrow> positiveOrNaN (jsAdd a (Num q))"
  by (cases a) auto

lemma positiveOrNaN_min: "positiveOrNaN a \<Longrightarrow> 0 < q \<Longrightarrow> positiveOrNaN (jsMin a (Num q))"
  by (cases a) auto

lemma boosted_positive:
  "positiveOrNaN b1 \<Longrightarrow>
     positiveOrNaN
       (jsMin (if 2 < (n::nat)
               then jsAdd (if c2 then jsAdd (if c1 then jsAdd b1 (Num 3) else b1) (Num 2)
                           else (if c1 then jsAdd b1 (Num 3) else b1))
                          (ofNat (min (n - 1) 3))
               else (if c2 then jsAdd (if c1 then jsAdd b1 (Num 3) else b1) (Num 2)
                     else (if c1 then jsAdd b1 (Num 3) else b1)))
              (Num 15))"
  by (cases b1) (auto simp: ofNat_def)

lemma base_positive:
  "positiveOrNaN
     (case getProp (KEYWORD_WEIGHTS cat) k of
        VNum w \<Rightarrow> if w \<noteq> 0 then Num w else Num (partialMatchScore (KEYWORD_WEIGHTS cat) k)
      | VObject \<Rightarrow> NaN
      | VUndefined \<Rightarrow> Num (partialMatchScore (KEYWORD_WEIGHTS cat) k))"
  using getProp_weight[of cat k] partialMatchScore_ge[of "KEYWORD_WEIGHTS cat" k]
  by (auto split: jsval.splits)

lemma importance_positive:
  assumes "calculateKeywordImportance engine kw cat context = Inr v"
  shows "positiveOrNaN v"
proof (cases "matchCount engine (toLowerCase kw) (toLowerCase context)")
  case (Inl e)
  with assms show ?thesis by (simp add: calculateKeywordImportance_def Let_def)
next
  case (Inr n)
  note v = assms[unfolded calculateKeywordImportance_def Let_def Inr sum.case sum.inject]
  show ?thesis
    unfolding v[symmetric] by (rule boosted_positive[OF base_positive])
qed

lemma mapKeywordImportance_positive:
  "mapKeywordImportance engine kws context = Inr infos \<Longrightarrow>
     \<forall>i \<in> set infos. positiveOrNaN (importance i)"
proof (induction kws arbitrary: infos)
  case Nil
  then show ?case by simp
next
  case (Cons kw kws)
  from Cons.prems obtain imp rest where
    imp: "calculateKeywordImportance engine kw (categorizeKeyword kw) context = Inr imp"
    and rest: "mapKeywordImportance engine kws context = Inr rest"
    and infos: "infos = \<lparr>keyword = kw, importance = imp, category = categorizeKeyword kw,
                          contexts = extractKeywordContext kw context\<rparr> # rest"
    by (auto split: sum.splits)
  from importance_positive[OF imp] Cons.IH[OF rest] infos show ?case by simp
qed

lemma set_insertByImportance: "set (insertByImportance a xs) = insert a (set xs)"
  by (induction xs) auto

lemma set_sortByImportance: "set (sortByImportance xs) = set xs"
  unfolding sortByImportance_def by (induction xs) (simp_all add: set_insertByImportance)

lemma analyzeKeywordImportance_positive:
  "analyzeKeywordImportance engine kws context = Inr infos \<Longrightarrow>
     \<forall>i \<in> set infos. positiveOrNaN (importance i)"
  using mapKeywordImportance_positive
  by (auto simp: analyzeKeywordImportance_def set_sortByImportance split: sum.splits)

lemma nonnegOrNaN_add: "nonnegOrNaN a \<Longrightarrow> positiveOrNaN b \<Longrightarrow> nonnegOrNaN (jsAdd a b)"
  by (cases a; cases b) (auto simp: nonnegOrNaN_def)

lemma fold_total_nonneg:
  "\<forall>i \<in> set infos. positiveOrNaN (importance i) \<Longrightarrow> nonnegOrNaN a \<Longrightarrow>
     nonnegOrNaN (fold (\<lambda>kwInfo total. jsAdd total (importance kwInfo)) infos a)"
  by (induction infos arbitrary: a) (simp_all add: nonnegOrNaN_add)

lemma fold_matched_nonneg:
  "\<forall>i \<in> set infos. positiveOrNaN (importance i) \<Longrightarrow> nonnegOrNaN a \<Longrightarrow>
     nonnegOrNaN (fold (\<lambda>kwInfo matched. if P kwInfo then jsAdd matched (importance kwInfo) else matched)
                    infos a)"
  by (induction infos arbitrary: a) (simp_all add: nonnegOrNaN_add)

lemma rounded_ratio:
  assumes "nonnegOrNaN m" and "nonnegOrNaN t" and "\<not> jsStrictEq t (Num 0)"
  shows "jsMin (jsRound (jsMul (jsDiv m t) (Num 100))) (Num 100) = NaN \<or>
         inRange (jsMin (jsRound (jsMul (jsDiv m t) (Num 100))) (Num 100))"
proof (cases m)
  case NaN
  then show ?thesis by simp
next
  case m: (Num mq)
  show ?thesis
  proof (cases t)
    case NaN
    with m show ?thesis by simp
  next
    case t: (Num tq)
    from assms m t have "0 \<le> mq" "0 < tq" by (auto simp: nonnegOrNaN_def)
    then have "0 \<le> mq / tq * 100" by simp
    then have "0 \<le> \<lfloor>mq / tq * 100 + 1 / 2\<rfloor>" by simp
    with m t show ?thesis by (simp add: inRange_def)
  qed
qed

lemma keywordMatch_range:
  assumes "calculateKeywordMatchScore engine t ks = Inr v"
  shows "v = NaN \<or> inRange v"
proof (cases "ks = []")
  case True
  with assms show ?thesis by (auto simp: calculateKeywordMatchScore_def inRange_def)
next
  case False
  with assms obtain infos where infos: "analyzeKeywordImportance engine ks t = Inr infos"
    by (auto simp: calculateKeywordMatchScore_def Let_def split: sum.splits)
  let ?total = "fold (\<lambda>kwInfo total. jsAdd total (importance kwInfo)) infos (Num 0)"
  let ?matched = "fold (\<lambda>kwInfo matched.
                          if list_ex (\<lambda>resumeKw. isKeywordMatch resumeKw (keyword kwInfo)) (extractKeywords t)
                          then jsAdd matched (importance kwInfo) else matched) infos (Num 0)"
  note pos = analyzeKeywordImportance_positive[OF infos]
  have z: "nonnegOrNaN (Num 0)" by (simp add: nonnegOrNaN_def)
  have tot: "nonnegOrNaN ?total" by (rule fold_total_nonneg[OF pos z])
  have mat: "nonnegOrNaN ?matched" by (rule fold_matched_nonneg[OF pos z])
  from assms False infos have v:
    "v = (if jsStrictEq ?total (Num 0) then Num 100
          else jsMin (jsRound (jsMul (jsDiv ?matched ?total) (Num 100))) (Num 100))"
    by (auto simp: calculateKeywordMatchScore_def Let_def split: if_splits)
  show ?thesis
  proof (cases "jsStrictEq ?total (Num 0)")
    case True
    with v show ?thesis by (simp add: inRange_def)
  next
    case False
    with v rounded_ratio[OF mat tot False] show ?thesis by simp
  qed
qed

lemma overall_range:
  assumes "keywordMatch b = NaN \<or> inRange (keywordMatch b)"
    and "0 \<le> contentScore b \<and> contentScore b \<le> 100"
    and "0 \<le> structureScore b \<and> structureScore b \<le> 100"
    and "0 \<le> formatScore b \<and> formatScore b \<le> 100"
    and "0 \<le> lengthScore b \<and> lengthScore b \<le> 100"
  shows "calculateOverallScore b = NaN \<or> inRange (calculateOverallScore b)"
proof (cases "keywordMatch b")
  case NaN
  then show ?thesis by (simp add: calculateOverallScore_def)
next
  case (Num k)
  with assms(1) have k: "0 \<le> k" "k \<le> 100" by (simp_all add: inRange_def)
  let ?x = "k * (40 / 100) + of_int (contentScore b) * (25 / 100) + of_int (structureScore b) * (15 / 100)
            + of_int (formatScore b) * (10 / 100) + of_int (lengthScore b) * (10 / 100) :: rat"
  have c: "(0::rat) \<le> of_int (contentScore b)" "(of_int (contentScore b) :: rat) \<le> 100"
    and s: "(0::rat) \<le> of_int (structureScore b)" "(of_int (structureScore b) :: rat) \<le> 100"
    and f: "(0::rat) \<le> of_int (formatScore b)" "(of_int (formatScore b) :: rat) \<le> 100"
    and l: "(0::rat) \<le> of_int (lengthScore b)" "(of_int (lengthScore b) :: rat) \<le> 100"
    using assms(2-5) by simp_all
  from k c s f l have "0 \<le> ?x" "?x \<le> 100" by simp_all
  then have "0 \<le> \<lfloor>?x + 1 / 2\<rfloor>" "\<lfloor>?x + 1 / 2\<rfloor> \<le> 100"
    by (simp_all add: floor_le_iff le_floor_iff)
  with Num show ?thesis
    by (simp add: calculateOverallScore_def weights_def ofInt_def inRange_def)
qed

lemma scores_in_range_or_NaN:
  assumes "calculateATSScore engine t ks = Inr r"
  shows "(score r = NaN \<or> inRange (score r)) \<and>
         (keywordMatch (breakdown r) = NaN \<or> inRange (keywordMatch (breakdown r))) \<and>
         0 \<le> formatScore (breakdown r) \<and> formatScore (breakdown r) \<le> 100 \<and>
         0 \<le> contentScore (breakdown r) \<and> contentScore (breakdown r) \<le> 100 \<and>
         0 \<le> lengthScore (breakdown r) \<and> lengthScore (breakdown r) \<le> 100 \<and>
         0 \<le> structureScore (breakdown r) \<and> structureScore (breakdown r) \<le> 100"
proof -
  note a = calculateATSScore_Inr[OF assms]
  note b = calculateScoreBreakdown_Inr[OF a[THEN conjunct1]]
  have km: "keywordMatch (breakdown r) = NaN \<or> inRange (keywordMatch (breakdown r))"
    using b keywordMatch_range by blast
  have rest: "0 \<le> formatScore (breakdown r) \<and> formatScore (breakdown r) \<le> 100"
    "0 \<le> contentScore (breakdown r) \<and> contentScore (breakdown r) \<le> 100"
    "0 \<le> lengthScore (breakdown r) \<and> lengthScore (breakdown r) \<le> 100"
    "0 \<le> structureScore (breakdown r) \<and> structureScore (breakdown r) \<le> 100"
    using b formatScore_range contentScore_range lengthScore_range structureScore_range by simp_all
  from overall_range[OF km rest(2) rest(4) rest(1) rest(3)] a km rest show ?thesis by simp
qed

section \<open>Keyword importance: results\<close>

lemma javascript_lower: "toLowerCase ''javascript'' = ''javascript''"
  by code_simp

lemma javascript_category: "categorizeKeyword ''javascript'' = Technical"
  by code_simp

lemma javascript_prop: "getProp (KEYWORD_WEIGHTS Technical) ''javascript'' = VNum 10"
  by code_simp

lemma javascript_simple: "\<not> list_ex (\<lambda>c. c \<in> set otherSyntaxChars) ''javascript''"
  by code_simp

lemma javascript_count: "countFrom 0 ''javascript'' ''javascript'' = 1"
  by code_simp

lemma javascript_no_boost:
  "\<not> str_includes ''javascript'' ''required''" "\<not> str_includes ''javascript'' ''must''"
  "\<not> str_includes ''javascript'' ''essential''" "\<not> str_includes ''javascript'' ''years''"
  by code_simp+

lemma javascript_context: "extractKeywordContext ''javascript'' ''javascript'' = [''javascript'']"
  by code_simp

lemma javascript_importance:
  "calculateKeywordImportance engine ''javascript'' Technical ''javascript'' = Inr (Num 10)"
  unfolding calculateKeywordImportance_def Let_def javascript_lower javascript_prop
    matchCount_simple[OF javascript_simple, simplified] javascript_count
  using javascript_no_boost by simp

text \<open>
  C7, as the program has it. For the job text \<open>javascript\<close> and the keyword \<open>javascript\<close>,
  \<open>analyzeKeywordImportance\<close> gives the importance 10: the keyword is a key of the technical
  table, whose weight 10 is taken as it is, and no boost applies.
\<close>

theorem javascript_importance_is_10:
  "analyzeKeywordImportance engine [''javascript''] ''javascript'' =
     Inr [\<lparr>keyword = ''javascript'', importance = Num 10, category = Technical,
           contexts = [''javascript'']\<rparr>]"
  by (simp add: analyzeKeywordImportance_def javascript_category javascript_importance
        javascript_context sortByImportance_def)

text \<open>
  C7, as the claim has it, says that the importance is the default 5. It fails: the
  importance that the program gives is not 5.
\<close>

theorem javascript_importance_not_5:
  "\<exists>i. analyzeKeywordImportance noEngine [''javascript''] ''javascript'' = Inr [i] \<and>
       keyword i = ''javascript'' \<and> importance i \<noteq> Num 5"
  by (simp add: analyzeKeywordImportance_def javascript_category javascript_importance
        javascript_context sortByImportance_def)

section \<open>Keyword extraction: results\<close>

text \<open>Every extracted keyword is a phrase of the catalog or a token.\<close>

lemma phrases_tokens:
  "list_all (\<lambda>p. list_all isToken (str_split CHR '' '' p)) (technicalPhrases @ businessPhrases)"
  by code_simp

lemma word_is_token:
  assumes "w \<in> set (str_split CHR '' '' (cleanText t))" and "2 < length w"
  shows "isToken w" and "CHR '' '' \<notin> set w"
proof -
  from str_split_pieces[OF assms(1)] have ns: "CHR '' '' \<notin> set w" and sub: "set w \<subseteq> set (cleanText t)"
    by simp_all
  then have "list_all tokenChar w"
    using cleanText_chars[of _ t] by (auto simp: list_all_iff)
  with assms(2) show "isToken w" by (auto simp: isToken_def)
  from ns show "CHR '' '' \<notin> set w" .
qed

lemma extractKeywords_cases:
  assumes "k \<in> set (extractKeywords t)"
  shows "(k \<in> set (technicalPhrases @ businessPhrases) \<and> str_includes (cleanText t) k) \<or>
         (k \<in> set (str_split CHR '' '' (cleanText t)) \<and> 2 < length k \<and> k \<notin> set STOP_WORDS)"
  using assms
  by (auto simp: extractKeywords_def Let_def set_dedup extractPhrases_def split: if_splits)

lemma keyword_tokens:
  assumes "k \<in> set (extractKeywords t)"
  shows "list_all isToken (str_split CHR '' '' k)"
  using extractKeywords_cases[OF assms]
proof
  assume "k \<in> set (technicalPhrases @ businessPhrases) \<and> str_includes (cleanText t) k"
  with phrases_tokens show ?thesis unfolding list_all_iff by blast
next
  assume w: "k \<in> set (str_split CHR '' '' (cleanText t)) \<and> 2 < length k \<and> k \<notin> set STOP_WORDS"
  then have "isToken k" "CHR '' '' \<notin> set k" using word_is_token by blast+
  then show ?thesis by (simp add: str_split_no_sep)
qed

lemma keyword_no_dollar:
  assumes "k \<in> set (extractKeywords t)"
  shows "CHR ''$'' \<notin> set k"
proof
  assume d: "CHR ''$'' \<in> set k"
  have "k = str_join '' '' (str_split CHR '' '' k)" by (simp add: str_join_split)
  with d have "CHR ''$'' \<in> set (str_join '' '' (str_split CHR '' '' k))" by simp
  from tokens_chars[OF keyword_tokens[OF assms] this] show False
    using tokenChar_not_dollar by auto
qed

text \<open>The keywords joined with spaces are a cleaned text.\<close>

lemma joined_tokens:
  assumes "ks \<noteq> []" and "\<forall>k \<in> set ks. list_all isToken (str_split CHR '' '' k)"
  shows "str_split CHR '' '' (str_join '' '' ks) = concat (map (str_split CHR '' '') ks)"
    and "list_all isToken (str_split CHR '' '' (str_join '' '' ks))"
proof -
  show 1: "str_split CHR '' '' (str_join '' '' ks) = concat (map (str_split CHR '' '') ks)"
    using str_split_join[OF assms(1), of "CHR '' ''"] by simp
  from assms(2) show "list_all isToken (str_split CHR '' '' (str_join '' '' ks))"
    unfolding 1 by (auto simp: list_all_iff)
qed

lemma cleanText_joined:
  assumes "ks \<noteq> []" and "\<forall>k \<in> set ks. list_all isToken (str_split CHR '' '' k)"
  shows "cleanText (str_join '' '' ks) = str_join '' '' ks"
    and "str_join '' '' ks \<noteq> []"
proof -
  let ?J = "str_join '' '' ks"
  have J: "?J = str_join '' '' (str_split CHR '' '' ?J)" by (simp add: str_join_split)
  have ne: "str_split CHR '' '' ?J \<noteq> []" by (rule str_split_nonempty)
  from cleanText_tokens[OF ne joined_tokens(2)[OF assms]] J show "cleanText ?J = ?J" by simp
  from tokens_hd_last[OF ne joined_tokens(2)[OF assms]] J show "?J \<noteq> []" by simp
qed

lemma extractKeywords_clean:
  assumes "x \<noteq> []" and "str_trim x \<noteq> []" and "cleanText x = x"
  shows "set (extractKeywords x) =
      set (extractPhrases x) \<union>
      {w \<in> set (str_split CHR '' '' x). 2 < length w \<and> w \<notin> set STOP_WORDS}"
  using assms by (auto simp: extractKeywords_def Let_def set_dedup)

text \<open>
  The keywords extracted from a text, joined with single spaces, are a cleaned text, and
  every keyword of the first extraction is extracted from it again.
\<close>

lemma reextraction_superset:
  "set (extractKeywords t) \<subseteq> set (extractKeywords (str_join '' '' (extractKeywords t)))"
proof (cases "extractKeywords t = []")
  case True
  then show ?thesis by simp
next
  case False
  let ?ks = "extractKeywords t"
  let ?J = "str_join '' '' ?ks"
  have tok: "\<forall>k \<in> set ?ks. list_all isToken (str_split CHR '' '' k)"
    using keyword_tokens by blast
  have clean: "cleanText ?J = ?J" and ne: "?J \<noteq> []"
    using cleanText_joined[OF False tok] by simp_all
  have trim: "str_trim ?J \<noteq> []"
  proof -
    have s: "?J = str_join '' '' (str_split CHR '' '' ?J)" by (simp add: str_join_split)
    from tokens_trim[OF str_split_nonempty joined_tokens(2)[OF False tok]] s ne show ?thesis by simp
  qed
  have again: "set (extractKeywords ?J) =
      set (extractPhrases ?J) \<union>
      {w \<in> set (str_split CHR '' '' ?J). 2 < length w \<and> w \<notin> set STOP_WORDS}"
    by (rule extractKeywords_clean[OF ne trim clean])
  show ?thesis
  proof
    fix k assume k: "k \<in> set ?ks"
    from extractKeywords_cases[OF k] show "k \<in> set (extractKeywords ?J)"
    proof
      assume "k \<in> set (technicalPhrases @ businessPhrases) \<and> str_includes (cleanText t) k"
      with str_join_includes[OF k, of "'' ''"] have "k \<in> set (extractPhrases ?J)"
        by (simp add: extractPhrases_def)
      with again show ?thesis by blast
    next
      assume w: "k \<in> set (str_split CHR '' '' (cleanText t)) \<and> 2 < length k \<and> k \<notin> set STOP_WORDS"
      then have "CHR '' '' \<notin> set k" using word_is_token(2) by blast
      then have "str_split CHR '' '' k = [k]" by (rule str_split_no_sep)
      with k have "k \<in> set (concat (map (str_split CHR '' '') ?ks))" by force
      then have "k \<in> set (str_split CHR '' '' ?J)"
        using joined_tokens(1)[OF False tok] by simp
      with w again show ?thesis by blast
    qed
  qed
qed

lemma dedup_aux_distinct:
  "distinct acc \<Longrightarrow> distinct (fold (\<lambda>x acc. if x \<in> set acc then acc else acc @ [x]) xs acc)"
  by (induction xs arbitrary: acc) auto

lemma distinct_dedup: "distinct (dedup xs)"
  by (simp add: dedup_def dedup_aux_distinct)

lemma dedup_aux_id:
  "distinct (acc @ xs) \<Longrightarrow> fold (\<lambda>x acc. if x \<in> set acc then acc else acc @ [x]) xs acc = acc @ xs"
  by (induction xs arbitrary: acc) auto

lemma dedup_distinct: "distinct xs \<Longrightarrow> dedup xs = xs"
  using dedup_aux_id[of "[]" xs] by (simp add: dedup_def)

lemma concat_singletons: "\<forall>k \<in> set ks. f k = [k] \<Longrightarrow> concat (map f ks) = ks"
  by (induction ks) auto

lemma extractKeywords_clean_list:
  assumes "x \<noteq> []" and "str_trim x \<noteq> []" and "cleanText x = x"
  shows "extractKeywords x =
           dedup (extractPhrases x @
                  filter (\<lambda>word. word \<notin> set STOP_WORDS)
                    (filter (\<lambda>word. 2 < length word) (str_split CHR '' '' x)))"
  using assms by (simp add: extractKeywords_def Let_def)

lemma simple_tokens_stable:
  assumes "extractPhrases (str_join '' '' (extractKeywords t)) = []"
  shows "extractKeywords (str_join '' '' (extractKeywords t)) = extractKeywords t"
proof (cases "extractKeywords t = []")
  case True
  then show ?thesis by (simp add: extractKeywords_def)
next
  case False
  let ?ks = "extractKeywords t"
  let ?J = "str_join '' '' ?ks"
  have tok: "\<forall>k \<in> set ?ks. list_all isToken (str_split CHR '' '' k)"
    using keyword_tokens by blast
  have clean: "cleanText ?J = ?J" and ne: "?J \<noteq> []"
    using cleanText_joined[OF False tok] by simp_all
  have trim: "str_trim ?J \<noteq> []"
  proof -
    have s: "?J = str_join '' '' (str_split CHR '' '' ?J)" by (simp add: str_join_split)
    from tokens_trim[OF str_split_nonempty joined_tokens(2)[OF False tok]] s ne show ?thesis by simp
  qed
  have word: "k \<in> set (str_split CHR '' '' (cleanText t)) \<and> 2 < length k \<and> k \<notin> set STOP_WORDS"
    if k: "k \<in> set ?ks" for k
    using extractKeywords_cases[OF k]
  proof
    assume "k \<in> set (technicalPhrases @ businessPhrases) \<and> str_includes (cleanText t) k"
    with str_join_includes[OF k, of "'' ''"] have "k \<in> set (extractPhrases ?J)"
      by (simp add: extractPhrases_def)
    with assms show ?thesis by simp
  qed
  have single: "\<forall>k \<in> set ?ks. str_split CHR '' '' k = [k]"
    using word word_is_token(2) str_split_no_sep by blast
  have split: "str_split CHR '' '' ?J = ?ks"
    using joined_tokens(1)[OF False tok] concat_singletons[OF single] by simp
  have keep: "filter (\<lambda>word. word \<notin> set STOP_WORDS) (filter (\<lambda>word. 2 < length word) ?ks) = ?ks"
    using word by (simp add: filter_id_conv)
  have d: "distinct ?ks"
    by (simp add: extractKeywords_def Let_def distinct_dedup)
  have "extractKeywords ?J = dedup (extractPhrases ?J @
      filter (\<lambda>word. word \<notin> set STOP_WORDS) (filter (\<lambda>word. 2 < length word) (str_split CHR '' '' ?J)))"
    by (rule extractKeywords_clean_list[OF ne trim clean])
  also have "\<dots> = dedup ?ks" unfolding assms split keep by simp
  also have "\<dots> = ?ks" by (rule dedup_distinct[OF d])
  finally show ?thesis .
qed

text \<open>
  C8, as the program has it. Every keyword extracted from a text is extracted again from
  the text made of the extracted keywords joined with single spaces; and when that text
  contains no phrase of the catalog, the second extraction gives the keywords of the
  first, in the same order. With a phrase of the catalog in it, the second extraction can
  have more keywords than the first.
\<close>

theorem reextraction_keeps_keywords:
  "set (extractKeywords t) \<subseteq> set (extractKeywords (str_join '' '' (extractKeywords t))) \<and>
   (extractPhrases (str_join '' '' (extractKeywords t)) = [] \<longrightarrow>
      extractKeywords (str_join '' '' (extractKeywords t)) = extractKeywords t)"
  using reextraction_superset simple_tokens_stable by blast

lemma python_and_react: "extractKeywords ''Python and React'' = [''python'', ''react'']"
  by code_simp

lemma python_react_no_phrase: "extractPhrases (str_join '' '' [''python'', ''react'']) = []"
  by code_simp

theorem reextraction_keeps_keywords_witness:
  "extractPhrases (str_join '' '' (extractKeywords ''Python and React'')) = [] \<and>
   extractKeywords (str_join '' '' (extractKeywords ''Python and React'')) =
     extractKeywords ''Python and React''"
  using reextraction_keeps_keywords[of "''Python and React''"] python_react_no_phrase
  unfolding python_and_react by simp

lemma full_of_stack: "extractKeywords ''full of stack'' = [''full'', ''stack'']"
  by code_simp

lemma full_stack:
  "extractKeywords (str_join '' '' [''full'', ''stack'']) = [''full stack'', ''full'', ''stack'']"
  by code_simp

text \<open>
  C8, as the claim has it, fails on the text \<open>full of stack\<close>: its keywords are \<open>full\<close>
  and \<open>stack\<close>, and the text made of them has the catalog phrase \<open>full stack\<close> as a third.
\<close>

theorem reextraction_adds_keywords:
  "set (extractKeywords (str_join '' '' (extractKeywords ''full of stack''))) \<noteq> set (extractKeywords ''full of stack'')"
proof -
  have a: "''full stack'' \<in> set (extractKeywords (str_join '' '' (extractKeywords ''full of stack'')))"
    unfolding full_of_stack full_stack by simp
  have b: "''full stack'' \<notin> set (extractKeywords ''full of stack'')"
    unfolding full_of_stack by simp
  from a b show ?thesis by blast
qed

section \<open>The job posting analyzer: results\<close>

lemma searchFirst_first_char:
  "\<not> list_ex P t \<Longrightarrow> searchFirst (mSeq (mChar P) m) t = None"
  by (induction t) (simp_all add: mSeq_def mChar_def)

lemma mChar_rest: "(r, g) \<in> set (mChar P st) \<Longrightarrow> set r \<subseteq> set (fst st)"
  by (cases st) (auto simp: mChar_def split: list.splits if_splits)

lemma mRepeat_rest:
  "(r, g) \<in> set (mRepeat lo hi (mChar P) st) \<Longrightarrow> set r \<subseteq> set (fst st)"
proof (induction hi arbitrary: lo st)
  case 0
  then show ?case by (auto split: if_splits)
next
  case (Suc hi)
  from Suc.prems consider
    (more) st' where "st' \<in> set (mChar P st)" "(r, g) \<in> set (mRepeat (lo - 1) hi (mChar P) st')"
    | (stop) "(r, g) = st"
    by (auto split: if_splits)
  then show ?case
  proof cases
    case more
    from Suc.IH[OF more(2)] mChar_rest[of "fst st'" "snd st'" P st] more(1)
    show ?thesis by auto
  next
    case stop
    then show ?thesis by (cases st) auto
  qed
qed

lemma mGroup_rest:
  "(r, g) \<in> set (mGroup m st) \<Longrightarrow> \<exists>g'. (r, g') \<in> set (m st)"
  by (auto simp: mGroup_def)

lemma digits_then_literal_fails:
  assumes "\<not> list_ex (\<lambda>c. toLowerChar c = toLowerChar p) (fst st)"
  shows "mSeq (mGroup (mRepeat lo hi (mChar isDigit))) (mSeq (mLiteral (p # ps)) m) st = []"
proof -
  have "mSeq (mLiteral (p # ps)) m st' = []"
    if "st' \<in> set (mGroup (mRepeat lo hi (mChar isDigit)) st)" for st'
  proof -
    obtain r g where st': "st' = (r, g)" by (cases st')
    from that st' mGroup_rest obtain g' where "(r, g') \<in> set (mRepeat lo hi (mChar isDigit) st)"
      by blast
    then have "set r \<subseteq> set (fst st)" by (rule mRepeat_rest)
    with assms have "\<not> list_ex (\<lambda>c. toLowerChar c = toLowerChar p) r" by (auto simp: list_ex_iff)
    then show ?thesis
      by (cases r) (auto simp: st' mSeq_def mChar_def)
  qed
  then show ?thesis by (simp add: mSeq_def)
qed

lemma searchFirst_digits_then_literal:
  "\<not> list_ex (\<lambda>c. toLowerChar c = toLowerChar p) t \<Longrightarrow>
     searchFirst (mSeq (mGroup (mRepeat lo hi (mChar isDigit))) (mSeq (mLiteral (p # ps)) m)) t = None"
  by (induction t) (simp_all add: digits_then_literal_fails del: mLiteral.simps)

text \<open>The first two patterns need a dollar sign in the text, the third a letter k.\<close>

lemma pattern1_needs_dollar:
  "\<not> list_ex (\<lambda>c. c = CHR ''$'') t \<Longrightarrow> searchFirst (matches salaryPattern1) t = None"
  by (simp add: salaryPattern1_def dollar_def searchFirst_first_char)

lemma pattern2_needs_dollar:
  "\<not> list_ex (\<lambda>c. c = CHR ''$'') t \<Longrightarrow> searchFirst (matches salaryPattern2) t = None"
  by (simp add: salaryPattern2_def dollar_def searchFirst_first_char)

lemma pattern3_needs_k:
  "\<not> list_ex (\<lambda>c. toLowerChar c = toLowerChar CHR ''k'') t \<Longrightarrow>
     searchFirst (matches salaryPattern3) t = None"
  by (simp add: salaryPattern3_def searchFirst_digits_then_literal del: mLiteral.simps)

lemma salary_none_without_dollar_and_k:
  assumes "\<not> list_ex (\<lambda>c. c = CHR ''$'') t"
    and "\<not> list_ex (\<lambda>c. toLowerChar c = toLowerChar CHR ''k'') t"
  shows "extractSalaryRange t = None"
  by (simp add: extractSalaryRange_def salaryPatterns_def pattern1_needs_dollar[OF assms(1)]
        pattern2_needs_dollar[OF assms(1)] pattern3_needs_k[OF assms(2)])

text \<open>The cleaning leaves no dollar sign, so the first two patterns match no cleaned text.\<close>

lemma cleanJobText_no_dollar: "\<not> list_ex (\<lambda>c. c = CHR ''$'') (cleanJobText t)"
proof -
  have "CHR ''$'' \<notin> set (map (\<lambda>c. if usualChar c then c else CHR '' '') (collapseWhitespace t))"
    by (auto simp: usualChar_def isWordChar_def isDigit_def isSpace_def)
  with str_trim_subset show ?thesis
    unfolding cleanJobText_def list_ex_iff by blast
qed

lemma dollar_patterns_dead_after_cleaning:
  "searchFirst (matches salaryPattern1) (cleanJobText t) = None \<and>
   searchFirst (matches salaryPattern2) (cleanJobText t) = None"
  using pattern1_needs_dollar[OF cleanJobText_no_dollar] pattern2_needs_dollar[OF cleanJobText_no_dollar]
  by simp

lemma salary_sample_clean:
  "cleanJobText ''$120,000 - $160,000 per year'' = ''120,000 -  160,000 per year''"
  by code_simp

lemma salary_sample_no_dollar: "\<not> list_ex (\<lambda>c. c = CHR ''$'') ''120,000 -  160,000 per year''"
  by simp

lemma salary_sample_no_k:
  "\<not> list_ex (\<lambda>c. toLowerChar c = toLowerChar CHR ''k'') ''120,000 -  160,000 per year''"
  by code_simp

text \<open>
  On the text as it is given, before any cleaning, the first pattern matches and
  \<open>extractSalaryRange\<close> gives the range from 120000 to 160000.
\<close>

lemma mSeq_first:
  "\<exists>xs. a st = x # xs \<Longrightarrow> \<exists>ys. b x = y # ys \<Longrightarrow> \<exists>zs. mSeq a b st = y # zs"
  by (auto simp: mSeq_def)

lemma first_of: "xs \<noteq> [] \<and> hd xs = x \<Longrightarrow> \<exists>ys. xs = x # ys"
  by (cases xs) auto

lemma raw1: "dollar (''$120,000 - $160,000 per year'', []) \<noteq> [] \<and>
    hd (dollar (''$120,000 - $160,000 per year'', [])) = (''120,000 - $160,000 per year'', [])"
  by code_simp
lemma raw2: "amount (''120,000 - $160,000 per year'', []) \<noteq> [] \<and>
    hd (amount (''120,000 - $160,000 per year'', [])) = ('' - $160,000 per year'', [''120,000''])"
  by code_simp
lemma raw3: "spaces ('' - $160,000 per year'', [''120,000'']) \<noteq> [] \<and>
    hd (spaces ('' - $160,000 per year'', [''120,000''])) = (''- $160,000 per year'', [''120,000''])"
  by code_simp
lemma raw4: "dash (''- $160,000 per year'', [''120,000'']) \<noteq> [] \<and>
    hd (dash (''- $160,000 per year'', [''120,000''])) = ('' $160,000 per year'', [''120,000''])"
  by code_simp
lemma raw5: "spaces ('' $160,000 per year'', [''120,000'']) \<noteq> [] \<and>
    hd (spaces ('' $160,000 per year'', [''120,000''])) = (''$160,000 per year'', [''120,000''])"
  by code_simp
lemma raw6: "dollar (''$160,000 per year'', [''120,000'']) \<noteq> [] \<and>
    hd (dollar (''$160,000 per year'', [''120,000''])) = (''160,000 per year'', [''120,000''])"
  by code_simp
lemma raw7: "amount (''160,000 per year'', [''120,000'']) \<noteq> [] \<and>
    hd (amount (''160,000 per year'', [''120,000''])) = ('' per year'', [''120,000'', ''160,000''])"
  by code_simp
lemma raw8: "spaces ('' per year'', [''120,000'', ''160,000'']) \<noteq> [] \<and>
    hd (spaces ('' per year'', [''120,000'', ''160,000''])) = (''per year'', [''120,000'', ''160,000''])"
  by code_simp
lemma raw9:
  "mGroup (mAlt (mLiteral ''per year'') (mAlt (mLiteral ''annually'') (mLiteral ''yearly'')))
     (''per year'', [''120,000'', ''160,000'']) \<noteq> [] \<and>
   hd (mGroup (mAlt (mLiteral ''per year'') (mAlt (mLiteral ''annually'') (mLiteral ''yearly'')))
     (''per year'', [''120,000'', ''160,000''])) = ([], [''120,000'', ''160,000'', ''per year''])"
  by code_simp

lemma raw_match:
  "\<exists>zs. matches salaryPattern1 (''$120,000 - $160,000 per year'', []) =
          ([], [''120,000'', ''160,000'', ''per year'']) # zs"
  unfolding salaryPattern1_def SalaryPattern.simps
  apply (rule mSeq_first, rule first_of[OF raw1])
  apply (rule mSeq_first, rule first_of[OF raw2])
  apply (rule mSeq_first, rule first_of[OF raw3])
  apply (rule mSeq_first, rule first_of[OF raw4])
  apply (rule mSeq_first, rule first_of[OF raw5])
  apply (rule mSeq_first, rule first_of[OF raw6])
  apply (rule mSeq_first, rule first_of[OF raw7])
  apply (rule mSeq_first, rule first_of[OF raw8])
  apply (rule first_of[OF raw9])
  done

lemma raw_flag: "\<not> str_includes (source salaryPattern1) ''k''"
  by code_simp

lemma raw_numbers:
  "parseInt ''120000'' = Num 120000" "parseInt ''160000'' = Num 160000"
  by (simp_all add: parseInt_def isDigit_def ofNat_def)

lemma raw_salary:
  "extractSalaryRange ''$120,000 - $160,000 per year'' =
     Some \<lparr>salaryMin = Num 120000, salaryMax = Num 160000, currency = ''USD'', period = ''yearly''\<rparr>"
proof -
  from raw_match obtain zs where
    "matches salaryPattern1 (''$120,000 - $160,000 per year'', []) =
       ([], [''120,000'', ''160,000'', ''per year'']) # zs" by blast
  then have "searchFirst (matches salaryPattern1) ''$120,000 - $160,000 per year'' =
       Some [''120,000'', ''160,000'', ''per year'']"
    by simp
  then show ?thesis
    by (simp add: extractSalaryRange_def salaryPatterns_def raw_flag raw_numbers Let_def)
qed

subsection \<open>The skills are never returned\<close>

lemma error_unique: "(e::error) = SyntaxError"
  by (cases e) simp

lemma cpp_pattern: "malformedPattern AtStart (skillPattern ''c++'')"
  by (simp add: skillPattern_def backslash_def)

lemma cpp_raises: "matchesSkill engineI ''c++'' jobText = Inl SyntaxError"
  by (simp add: matchesSkill_def cpp_pattern bracketChars_def)

lemma skillsLoop_raises:
  "skill \<in> set ss \<Longrightarrow> matchesSkill engineI skill jobText = Inl SyntaxError \<Longrightarrow>
     skillsLoop engineI engine ss jobText found = Inl SyntaxError"
proof (induction ss arbitrary: found)
  case Nil
  then show ?case by simp
next
  case (Cons s ss)
  show ?case
  proof (cases "s = skill")
    case True
    with Cons.prems show ?thesis by simp
  next
    case False
    with Cons.prems have "skill \<in> set ss" by simp
    from Cons.IH[OF this Cons.prems(2)] show ?thesis
      by (auto simp: error_unique split: sum.splits bool.splits)
  qed
qed

lemma extractSkills_raises: "extractSkills engineI engine jobText = Inl SyntaxError"
proof -
  have "''c++'' \<in> set technicalSkills" by (simp add: technicalSkills_def)
  from skillsLoop_raises[OF this cpp_raises] show ?thesis
    by (simp add: extractSkills_def)
qed

lemma salary_sample_none:
  "extractSalaryRange (cleanJobText ''$120,000 - $160,000 per year'') = None"
  unfolding salary_sample_clean
  by (rule salary_none_without_dollar_and_k[OF salary_sample_no_dollar salary_sample_no_k])

text \<open>
  C6 says that \<open>analyzeJobPosting\<close> gives the salary from 120000 to 160000 US dollars a
  year for a job text with \<open>$120,000 - $160,000 per year\<close>. The program gives no result
  at all, for this text and for every other: the field \<open>skills\<close> is computed before the
  field \<open>salary\<close>, and the regular expression that \<open>extractSkills\<close> builds for the skill
  \<open>c++\<close> is malformed, so that the call ends with a syntax error. Nor would the salary be
  found if the skills were: the cleaning turns both dollar signs of the text into spaces
  before the patterns run, and none of the three patterns matches what is left.
\<close>

theorem analyzeJobPosting_raises_SyntaxError:
  "analyzeJobPosting engineI engine jobText = Inl SyntaxError \<and>
   extractSalaryRange (cleanJobText ''$120,000 - $160,000 per year'') = None"
  by (simp add: analyzeJobPosting_def extractSkills_raises salary_sample_none Let_def)

section \<open>The tailoring engine: results\<close>

lemma postgres_tailored:
  "(case tailorResume noEngine postgresRequest of
      Inl e \<Rightarrow> None
    | Inr r \<Rightarrow> Some (tailoredResume r, map original (suggestions r), originalScore r, atsScore r))
   = Some (''Reduce repetition of '' @ quoted ''postgres'' @ ''ql'', [''postgres'', ''sql''], Num 70, Num 44)"
  by code_simp

lemma postgres_before: "matchedKeywordCount ''postgres sql'' ''postgresql'' = 2"
  by code_simp

lemma postgres_after:
  "matchedKeywordCount ''postgres sql'' (''Reduce repetition of '' @ quoted ''postgres'' @ ''ql'') = 1"
  by code_simp

text \<open>
  C9 says that the tailored resume matches at least as many job keywords as the resume
  when the original text of a suggestion occurs in the resume. The program breaks this
  on the resume \<open>postgresql\<close> and the job description \<open>postgres sql\<close>. Both job keywords
  are matched in the resume, and the suggestion for \<open>postgres\<close>, whose original text
  occurs in the resume, is applied: the advisory text takes the place of \<open>postgres\<close>
  inside the word. The tailored resume matches one job keyword where the resume matched
  two, and its ATS score is 44 where the resume had 70.
\<close>

theorem tailoring_lowers_coverage:
  "\<exists>r. tailorResume noEngine postgresRequest = Inr r \<and>
       map original (suggestions r) = [''postgres'', ''sql''] \<and>
       str_includes (resumeText postgresRequest) ''postgres'' \<and>
       tailoredResume r = ''Reduce repetition of '' @ quoted ''postgres'' @ ''ql'' \<and>
       matchedKeywordCount (jobDescription postgresRequest) (resumeText postgresRequest) = 2 \<and>
       matchedKeywordCount (jobDescription postgresRequest) (tailoredResume r) = 1 \<and>
       originalScore r = Num 70 \<and> atsScore r = Num 44"
proof (cases "tailorResume noEngine postgresRequest")
  case (Inl e)
  with postgres_tailored show ?thesis by simp
next
  case (Inr r)
  with postgres_tailored postgres_before postgres_after show ?thesis
    by (simp add: postgresRequest_def)
qed

lemma getSubstitution_plain:
  "CHR ''$'' \<notin> set r \<Longrightarrow> getSubstitution m f b r = r"
  by (induction m f b r rule: getSubstitution.induct) auto

lemma startsWith_drop: "startsWith s p \<Longrightarrow> s = p @ drop (length p) s"
  by (induction s p rule: startsWith.induct) auto

lemma splitAtFirst_Some: "splitAtFirst t p = Some (a, b) \<Longrightarrow> t = a @ p @ b"
proof (induction t arbitrary: a)
  case Nil
  then show ?case by (auto split: if_splits)
next
  case (Cons c cs)
  show ?case
  proof (cases "startsWith (c # cs) p")
    case True
    with Cons.prems startsWith_drop[OF True] show ?thesis by simp
  next
    case False
    with Cons.prems obtain a' where "splitAtFirst cs p = Some (a', b)" "a = c # a'" by auto
    with Cons.IH show ?thesis by simp
  qed
qed

lemma str_includes_splitAtFirst: "str_includes t p \<longleftrightarrow> splitAtFirst t p \<noteq> None"
  by (induction t) auto

lemma analyzeKeywordMatches_keyword:
  "km \<in> set (analyzeKeywordMatches jobKeywords resumeKeywords resume) \<Longrightarrow> km_keyword km \<in> set jobKeywords"
  by (auto simp: analyzeKeywordMatches_def)

lemma optimizeKeywordDensity_shape:
  assumes "s \<in> set (optimizeKeywordDensity sections kms)"
  shows "\<exists>km \<in> set kms. inResume km \<and> 0 < frequency km \<and> s_section s = ''overall'' \<and>
           original s = km_keyword km \<and>
           ((suggested s = ''Reduce repetition of '' @ quoted (km_keyword km) \<and> impact s = - 5) \<or>
            (suggested s = ''Increase usage of '' @ quoted (km_keyword km) \<and> impact s = 8))"
  using assms
  by (auto simp: optimizeKeywordDensity_def Let_def split: if_splits)

lemma applySuggestion_plain:
  assumes "CHR ''$'' \<notin> set (suggested s)"
  shows "applySuggestion text s =
           (case splitAtFirst text (original s) of
              None \<Rightarrow> text
            | Some (front, back) \<Rightarrow> front @ suggested s @ back)"
  using assms
  by (auto simp: applySuggestion_def jsReplace_def getSubstitution_plain str_includes_splitAtFirst
           split: option.splits)

text \<open>
  C10, as the program has it. A suggestion that \<open>optimizeKeywordDensity\<close> generates from
  the keywords of a job description has one of these keywords, bare, as its original text
  and the advice to reduce or to increase its use as its suggested text. Applied to a
  text, it puts the advice in the place of the first occurrence of the keyword, letter
  for letter, when there is one, and leaves the text as it is when there is none.
\<close>

theorem density_suggestion_application:
  assumes "s \<in> set (optimizeKeywordDensity sections
                      (analyzeKeywordMatches (extractKeywords jobText) resumeKeywords resume))"
  shows "original s \<in> set (extractKeywords jobText) \<and>
         (suggested s = ''Reduce repetition of '' @ quoted (original s) \<or>
          suggested s = ''Increase usage of '' @ quoted (original s)) \<and>
         applySuggestion text s =
           (case splitAtFirst text (original s) of
              None \<Rightarrow> text
            | Some (front, back) \<Rightarrow> front @ suggested s @ back)"
proof -
  from optimizeKeywordDensity_shape[OF assms] obtain km where
    km: "km \<in> set (analyzeKeywordMatches (extractKeywords jobText) resumeKeywords resume)"
    and orig: "original s = km_keyword km"
    and sug: "suggested s = ''Reduce repetition of '' @ quoted (km_keyword km) \<or>
              suggested s = ''Increase usage of '' @ quoted (km_keyword km)"
    by blast
  from analyzeKeywordMatches_keyword[OF km] orig have mem: "original s \<in> set (extractKeywords jobText)"
    by simp
  from keyword_no_dollar[OF mem] sug orig have "CHR ''$'' \<notin> set (suggested s)"
    by (auto simp: quoted_def)
  from applySuggestion_plain[OF this] mem sug orig show ?thesis by simp
qed

lemma reducePython_generated:
  "reducePython \<in> set (optimizeKeywordDensity (parseResumeIntoSections ''python'')
                         (analyzeKeywordMatches (extractKeywords ''python'') (extractKeywords ''python'') ''python''))"
  by code_simp

lemma split_python: "splitAtFirst ''I know python well'' ''python'' = Some (''I know '', '' well'')"
  by code_simp
lemma split_Python: "splitAtFirst ''I know Python well'' ''python'' = None"
  by code_simp

theorem density_suggestion_application_witness:
  "applySuggestion ''I know python well'' reducePython = ''I know Reduce repetition of '' @ quoted ''python'' @ '' well'' \<and>
   applySuggestion ''I know Python well'' reducePython = ''I know Python well''"
  using density_suggestion_application[OF reducePython_generated, of "''I know python well''"]
        density_suggestion_application[OF reducePython_generated, of "''I know Python well''"]
  by (simp add: reducePython_def split_python split_Python)

text \<open>
  The occurrence that \<open>splitAtFirst\<close> finds is the first one; the tailored resume is the
  resume with the suggestions applied one after the other, the density suggestions among
  them.
\<close>

lemma splitAtFirst_first:
  "splitAtFirst t p = Some (a, b) \<Longrightarrow> t = a' @ p @ b' \<Longrightarrow> length a \<le> length a'"
proof (induction t arbitrary: a a')
  case Nil
  then show ?case by (auto split: if_splits)
next
  case (Cons c cs)
  show ?case
  proof (cases "startsWith (c # cs) p")
    case True
    with Cons.prems(1) have "a = []" by simp
    then show ?thesis by simp
  next
    case False
    with Cons.prems(1) obtain a0 where a0: "splitAtFirst cs p = Some (a0, b)" "a = c # a0" by auto
    from False Cons.prems(2) have "a' \<noteq> []" by (auto simp: startsWith_iff)
    with Cons.prems(2) obtain a1 where a1: "a' = c # a1" "cs = a1 @ p @ b'" by (cases a') auto
    from Cons.IH[OF a0(1) a1(2)] a0(2) a1(1) show ?thesis by simp
  qed
qed

lemma set_insertByImpact: "set (insertByImpact a xs) = insert a (set xs)"
  by (induction xs) auto

lemma set_sortByImpact: "set (sortByImpact xs) = set xs"
  unfolding sortByImpact_def by (induction xs) (simp_all add: set_insertByImpact)

lemma tailorResume_Inr:
  assumes "tailorResume engine request = Inr r"
  shows "tailoredResume r = applyTailoringChanges (resumeText request) (suggestions r)"
    and "set (optimizeKeywordDensity (parseResumeIntoSections (resumeText request))
               (analyzeKeywordMatches (extractKeywords (jobDescription request))
                  (extractKeywords (resumeText request)) (resumeText request)))
         \<subseteq> set (suggestions r)"
  using assms
  by (auto simp: tailorResume_def Let_def generateTailoringSuggestions_def set_sortByImpact
           split: sum.splits)

lemma applyTailoringChanges_step:
  "applyTailoringChanges text (s # rest) = applyTailoringChanges (applySuggestion text s) rest"
  by (simp add: applyTailoringChanges_def)

lemma capital_tailored:
  "(case tailorResume noEngine capitalRequest of
      Inl e \<Rightarrow> None
    | Inr r \<Rightarrow> Some (tailoredResume r, map s_section (suggestions r), map original (suggestions r),
                     map suggested (suggestions r)))
   = Some (''Python'', [''overall''], [''python''], [''Reduce repetition of '' @ quoted ''python''])"
  by code_simp

text \<open>
  C10, as the claim has it, fails on the resume \<open>Python\<close> and the job description \<open>python\<close>:
  the density of the keyword is 50 percent, the suggestion to reduce it is generated with
  the bare keyword as its original text, and the resume, which has the keyword with a
  capital letter only, comes back unchanged.
\<close>

theorem density_suggestion_not_applied:
  "\<exists>r. tailorResume noEngine capitalRequest = Inr r \<and>
       map s_section (suggestions r) = [''overall''] \<and>
       map original (suggestions r) = [''python''] \<and>
       map suggested (suggestions r) = [''Reduce repetition of '' @ quoted ''python''] \<and>
       tailoredResume r = resumeText capitalRequest"
proof (cases "tailorResume noEngine capitalRequest")
  case (Inl e)
  with capital_tailored show ?thesis by simp
next
  case (Inr r)
  with capital_tailored show ?thesis
    by (simp add: capitalRequest_def)
qed

end
